theory Spec2Isabelle
  imports Main "HOL-Library.AList"
begin

section \<open>pywincffi: loading the native module and the per-call contract\<close>

text \<open>
  A shallow embedding of \<^verbatim>\<open>pywincffi/core/dist.py\<close> and of
  \<^verbatim>\<open>pywincffi/shell32/security.py\<close>. Python exceptions are values of the type
  \<open>exn\<close>; a function that may raise returns \<open>exn + 'a\<close> (\<open>Inl\<close> the exception)
  together with the world it leaves behind. The world holds what the code reads and
  mutates: the filesystem, the descriptor table, the buffers of \<^verbatim>\<open>sys.stdout\<close> and
  \<^verbatim>\<open>sys.stderr\<close>, the class attribute \<^verbatim>\<open>Module.cache\<close>, the last-error code of the
  platform and a trace of the effects performed. What the interpreter and the platform decide (the import system, the
  extension loaders, the build toolchain, \<^verbatim>\<open>repr\<close>) is a parameter, the record
  \<open>env\<close>. Calls of \<^verbatim>\<open>logger.debug\<close> are left out.
\<close>

subsection \<open>Values and exceptions\<close>

datatype errno = ENOENT | ENOTDIR | EISDIR | EBADF

datatype pytype = TNone | TInt | TStr | TTuple | TList | TFile

text \<open>The Python values the checks are applied to. Equality of these values is
  Python's \<^verbatim>\<open>==\<close> on them.\<close>

datatype pyval =
    PNone | PInt int | PStr string | PTuple "pyval list" | PList "pyval list" | PFile nat

datatype category = ExactType pytype | FileLike | UTF8Family | UnknownCategory string

text \<open>
  \<open>ModuleNotFoundError\<close> is the import system's "no module of that name" (a subclass of
  \<^verbatim>\<open>ImportError\<close> since Python 3.6, an \<^verbatim>\<open>ImportError\<close> with the message
  "No module named ..." before); \<open>ImportError\<close> is every other import failure, such as
  an extension module that is found and fails to load. \<open>Exception\<close> stands for any
  other subclass of \<^verbatim>\<open>Exception\<close>; \<open>KeyboardInterrupt\<close> derives from
  \<^verbatim>\<open>BaseException\<close> only.
\<close>

datatype exn =
    ModuleNotFoundError string
  | ImportError string
  | ResourceNotFoundError string
  | OSError errno string
  | NotImplementedError string
  | AssertionError
  | InputError string pyval "category list option" "pyval option"
  | WindowsAPIError string int "string option"
  | AttributeError string
  | TypeError string
  | Exception string
  | KeyboardInterrupt

fun is_ImportError :: "exn \<Rightarrow> bool" where
  "is_ImportError (ModuleNotFoundError _) = True"
| "is_ImportError (ImportError _) = True"
| "is_ImportError _ = False"

fun is_Exception :: "exn \<Rightarrow> bool" where
  "is_Exception KeyboardInterrupt = False"
| "is_Exception _ = True"

fun is_InputError :: "exn \<Rightarrow> bool" where
  "is_InputError (InputError _ _ _ _) = True"
| "is_InputError _ = False"

text \<open>The \<^verbatim>\<open>errno\<close> attribute of \<^verbatim>\<open>OSError\<close>, \<^verbatim>\<open>IOError\<close> and
  \<^verbatim>\<open>WindowsError\<close>; \<open>None\<close> for an exception that is none of them.\<close>

fun errno_of :: "exn \<Rightarrow> errno option" where
  "errno_of (OSError en _) = Some en"
| "errno_of _ = None"

subsection \<open>The loaded module\<close>

datatype cdata = CData string int

text \<open>A native function takes its arguments and the last-error code and returns its
  result (or raises) and the last-error code it leaves.\<close>

type_synonym native_fn = "cdata list \<Rightarrow> int \<Rightarrow> (exn + pyval) \<times> int"

text \<open>What an extension module built by cffi exposes: \<^verbatim>\<open>module.ffi\<close>, of which the
  code uses \<^verbatim>\<open>ffi.cast\<close>, and \<^verbatim>\<open>module.lib\<close>, the table of native symbols.\<close>

record ffi_handle =
  cast :: "string \<Rightarrow> pyval \<Rightarrow> exn + cdata"

type_synonym library = "string \<Rightarrow> native_fn option"

record module_handle =
  mh_name :: string
  mh_ffi :: ffi_handle
  mh_lib :: library

text \<open>\<^verbatim>\<open>class Module\<close>: the four attributes set by \<^verbatim>\<open>__init__\<close>.\<close>

record Module =
  m_module :: module_handle
  m_mode :: string
  m_ffi :: ffi_handle
  m_lib :: library

subsection \<open>The world\<close>

type_synonym path = string
type_synonym fd = nat

datatype node = File string | Dir

datatype stream = Stdout | Stderr

datatype event =
    EvOpen path
  | EvDup fd fd
  | EvFlush stream
  | EvMkstemp fd path
  | EvDup2 fd fd
  | EvFsync fd
  | EvClose fd
  | EvMkdtemp path
  | EvImport string
  | EvCompile path
  | EvRemove path
  | EvLoadModule string path
  | EvRmtree path
  | EvWarn string
  | EvCall string "cdata list"
  | EvErrorCheck string

record world =
  fs :: "(path \<times> node) list"
  fdtab :: "(fd \<times> path) list"
  stdout_buf :: string
  stderr_buf :: string
  cache :: "Module option"
  last_error :: int
  trace :: "event list"

type_synonym 'a result = "(exn + 'a) \<times> world"

definition emit :: "event \<Rightarrow> world \<Rightarrow> world" where
  "emit e st = st\<lparr>trace := trace st @ [e]\<rparr>"

text \<open>Sequencing: an exception of the first statement skips the second.\<close>

definition bind :: "'a result \<Rightarrow> ('a \<Rightarrow> world \<Rightarrow> 'b result) \<Rightarrow> 'b result" where
  "bind r f = (case r of (Inl e, st) \<Rightarrow> (Inl e, st) | (Inr x, st) \<Rightarrow> f x st)"

subsection \<open>The filesystem\<close>

definition isfile :: "world \<Rightarrow> path \<Rightarrow> bool" where
  "isfile st p = (case map_of (fs st) p of Some (File _) \<Rightarrow> True | _ \<Rightarrow> False)"

definition missing :: "world \<Rightarrow> path \<Rightarrow> bool" where
  "missing st p = (map_of (fs st) p = None)"

definition file_text :: "world \<Rightarrow> path \<Rightarrow> string" where
  "file_text st p = (case map_of (fs st) p of Some (File s) \<Rightarrow> s | _ \<Rightarrow> [])"

text \<open>A path is under \<open>d\<close> when it is \<open>d\<close> or continues \<open>d\<close> after the separator. A path
  is below a regular file when one of its proper prefixes, up to a separator, is a regular
  file: a component of the path is not a directory.\<close>

definition under :: "string \<Rightarrow> path \<Rightarrow> path \<Rightarrow> bool" where
  "under sep d p = (p = d \<or> take (length (d @ sep)) p = d @ sep)"

definition below_file :: "string \<Rightarrow> world \<Rightarrow> path \<Rightarrow> bool" where
  "below_file sep st p =
     list_ex (\<lambda>(q, n). case n of File s \<Rightarrow> q \<noteq> p \<and> under sep q p | Dir \<Rightarrow> False) (fs st)"

text \<open>What \<^verbatim>\<open>read()\<close> returns for a file opened in text mode (\<^verbatim>\<open>open(path, "r")\<close>,
  \<^verbatim>\<open>open(path)\<close>): CR LF and a lone CR are read as LF. The bytes of the file are taken as
  its characters.\<close>

fun universal_newlines :: "string \<Rightarrow> string" where
  "universal_newlines [] = []"
| "universal_newlines [c] = (if c = CHR 0x0D then [CHR 0x0A] else [c])"
| "universal_newlines (c # d # cs) =
     (if c = CHR 0x0D \<and> d = CHR 0x0A then CHR 0x0A # universal_newlines cs
      else if c = CHR 0x0D then CHR 0x0A # universal_newlines (d # cs)
      else c # universal_newlines (d # cs))"

definition read_text :: "world \<Rightarrow> path \<Rightarrow> string" where
  "read_text st p = universal_newlines (file_text st p)"

subsection \<open>What the interpreter and the platform decide\<close>

datatype action = Write string | Flush

record build =
  b_output :: "action list"
  b_files :: "(path \<times> node) list"
  b_result :: "exn + path"

text \<open>An \<^verbatim>\<open>FFI()\<close> instance: what \<^verbatim>\<open>set_unicode\<close>, \<^verbatim>\<open>set_source\<close> and
  \<^verbatim>\<open>cdef\<close> have stored in it.\<close>

record ffi_object =
  ffi_unicode :: bool
  ffi_source :: "(string \<times> string) option"
  ffi_cdefs :: string

record env =
  os_sep :: string
  posix :: bool
  tempdir :: path
  resource_root :: "string \<Rightarrow> path"
  repr :: "string \<Rightarrow> string"
  import_module :: "string \<Rightarrow> exn + module_handle"
  ExtensionFileLoader :: "(string \<Rightarrow> path \<Rightarrow> exn + module_handle) option"
  imp :: "(string \<Rightarrow> path \<Rightarrow> exn + module_handle) option"
  cdef_error :: "string \<Rightarrow> exn option"
  ffi_compile :: "ffi_object \<Rightarrow> path \<Rightarrow> build"
  locked :: "path \<Rightarrow> bool"
  format_message :: "int \<Rightarrow> string option"

subsection \<open>Opening a file for reading\<close>

text \<open>On POSIX \<^verbatim>\<open>open\<close> fails with \<^verbatim>\<open>ENOTDIR\<close> for a path a component of which is a
  regular file; Windows reports such a path as not found.\<close>

definition enotdir :: "env \<Rightarrow> world \<Rightarrow> path \<Rightarrow> bool" where
  "enotdir E st p = (posix E \<and> below_file (os_sep E) st p)"

text \<open>\<^verbatim>\<open>with open(path, "r") as file_: file_.read()\<close>: the text of a regular file as
  text mode reads it. A directory gives \<^verbatim>\<open>EISDIR\<close>. A path that does not exist gives
  \<^verbatim>\<open>ENOENT\<close>, unless the platform reports \<^verbatim>\<open>ENOTDIR\<close> for it.\<close>

definition open_read :: "env \<Rightarrow> path \<Rightarrow> world \<Rightarrow> string result" where
  "open_read E p st =
     (case map_of (fs st) p of
        None \<Rightarrow>
          (Inl (OSError (if enotdir E st p then ENOTDIR else ENOENT) p),
           emit (EvOpen p) st)
      | Some Dir \<Rightarrow> (Inl (OSError EISDIR p), emit (EvOpen p) st)
      | Some (File s) \<Rightarrow> (Inr (universal_newlines s), emit (EvOpen p) st))"

subsection \<open>Module constants\<close>

definition MODULE_NAME :: string where
  "MODULE_NAME = ''_pywincffi''"

fun join :: "string \<Rightarrow> string list \<Rightarrow> string" where
  "join sep [] = []"
| "join sep [a] = a"
| "join sep (a # b # rest) = a @ sep @ join sep (b # rest)"

definition resource_filename :: "env \<Rightarrow> string \<Rightarrow> string \<Rightarrow> path" where
  "resource_filename E package name = join (os_sep E) [resource_root E package, name]"

definition HEADER_FILES :: "env \<Rightarrow> path list" where
  "HEADER_FILES E =
     [resource_filename E ''pywincffi'' (join (os_sep E) [''core'', ''cdefs'', ''headers'', ''constants.h'']),
      resource_filename E ''pywincffi'' (join (os_sep E) [''core'', ''cdefs'', ''headers'', ''structs.h'']),
      resource_filename E ''pywincffi'' (join (os_sep E) [''core'', ''cdefs'', ''headers'', ''functions.h''])]"

definition SOURCE_FILES :: "env \<Rightarrow> path list" where
  "SOURCE_FILES E =
     [resource_filename E ''pywincffi'' (join (os_sep E) [''core'', ''cdefs'', ''sources'', ''main.c''])]"

subsection \<open>\<^verbatim>\<open>_read\<close>\<close>

text \<open>The loop of \<^verbatim>\<open>_read\<close>, with \<^verbatim>\<open>output\<close> as accumulator. An
  \<^verbatim>\<open>OSError\<close> whose errno is \<^verbatim>\<open>ENOENT\<close> becomes
  \<^verbatim>\<open>ResourceNotFoundError("Failed to locate %s" % path)\<close>; any other exception is
  raised again.\<close>

fun read_loop :: "env \<Rightarrow> path list \<Rightarrow> string \<Rightarrow> world \<Rightarrow> string result" where
  "read_loop E [] output st = (Inr output, st)"
| "read_loop E (path # paths) output st =
     (case open_read E path st of
        (Inl error, st') \<Rightarrow>
          (if errno_of error = Some ENOENT
           then (Inl (ResourceNotFoundError (''Failed to locate '' @ path)), st')
           else (Inl error, st'))
      | (Inr text, st') \<Rightarrow> read_loop E paths (output @ text) st')"

definition dist_read :: "env \<Rightarrow> path list \<Rightarrow> world \<Rightarrow> string result" where
  "dist_read E paths st = read_loop E paths [] st"

subsection \<open>\<^verbatim>\<open>_import_path\<close>\<close>

definition dist_import_path :: "env \<Rightarrow> path \<Rightarrow> string option \<Rightarrow> world \<Rightarrow> module_handle result" where
  "dist_import_path E path module_name st =
     (let module_name = (case module_name of None \<Rightarrow> MODULE_NAME | Some n \<Rightarrow> n) in
      if \<not> isfile st path
      then (Inl (ResourceNotFoundError (''Module path '' @ repr E path @ '' does not exist'')), st)
      else (case ExtensionFileLoader E of
              Some loader \<Rightarrow> (loader module_name path, emit (EvLoadModule module_name path) st)
            | None \<Rightarrow>
               (case imp E of
                  Some load_dynamic \<Rightarrow>
                    (load_dynamic module_name path, emit (EvLoadModule module_name path) st)
                | None \<Rightarrow>
                    (Inl (NotImplementedError
                       ''Neither `imp` or `ExtensionFileLoader` were imported''), st))))"

subsection \<open>Descriptors and streams\<close>

text \<open>The descriptor a call of \<^verbatim>\<open>os.dup\<close> or \<^verbatim>\<open>open\<close> returns: the lowest one
  that is not open.\<close>

definition fresh_fd :: "(fd \<times> path) list \<Rightarrow> fd" where
  "fresh_fd tab =
     (case find (\<lambda>n. n \<notin> set (map fst tab)) [0..<Suc (length tab)] of
        Some n \<Rightarrow> n
      | None \<Rightarrow> Suc (length tab))"

text \<open>The name \<^verbatim>\<open>tempfile\<close> picks below the temporary directory: the prefix and a
  suffix that makes the name differ from every path of the filesystem and every path an
  open descriptor refers to (it is longer than each of them).\<close>

definition temp_name :: "env \<Rightarrow> string \<Rightarrow> world \<Rightarrow> path" where
  "temp_name E prefix st =
     join (os_sep E)
       [tempdir E,
        prefix @ replicate (Suc (fold max (map length (map fst (fs st) @ map snd (fdtab st))) 0))
                   CHR ''x'']"

fun fileno :: "stream \<Rightarrow> fd" where
  "fileno Stdout = 1"
| "fileno Stderr = 2"

fun buffer :: "stream \<Rightarrow> world \<Rightarrow> string" where
  "buffer Stdout st = stdout_buf st"
| "buffer Stderr st = stderr_buf st"

fun set_buffer :: "stream \<Rightarrow> string \<Rightarrow> world \<Rightarrow> world" where
  "set_buffer Stdout b st = st\<lparr>stdout_buf := b\<rparr>"
| "set_buffer Stderr b st = st\<lparr>stderr_buf := b\<rparr>"

text \<open>\<^verbatim>\<open>stream.write(data)\<close> fills the buffer of the stream object.\<close>

definition stream_write :: "stream \<Rightarrow> string \<Rightarrow> world \<Rightarrow> world" where
  "stream_write s data st = set_buffer s (buffer s st @ data) st"

text \<open>Bytes written to a descriptor are appended to the file it refers to (nothing is
  kept when that file has been unlinked).\<close>

definition append_file :: "path \<Rightarrow> string \<Rightarrow> (path \<times> node) list \<Rightarrow> (path \<times> node) list" where
  "append_file p data F =
     (case map_of F p of Some (File s) \<Rightarrow> AList.update p (File (s @ data)) F | _ \<Rightarrow> F)"

text \<open>\<^verbatim>\<open>stream.flush()\<close> writes the buffer to the descriptor of the stream.\<close>

definition stream_flush :: "stream \<Rightarrow> world \<Rightarrow> unit result" where
  "stream_flush s st =
     (case map_of (fdtab st) (fileno s) of
        None \<Rightarrow> (Inl (OSError EBADF ''flush''), st)
      | Some p \<Rightarrow>
          (Inr (), emit (EvFlush s)
                     (set_buffer s [] (st\<lparr>fs := append_file p (buffer s st) (fs st)\<rparr>))))"

definition os_dup :: "fd \<Rightarrow> world \<Rightarrow> fd result" where
  "os_dup f st =
     (case map_of (fdtab st) f of
        None \<Rightarrow> (Inl (OSError EBADF ''dup''), st)
      | Some p \<Rightarrow>
          (let c = fresh_fd (fdtab st)
           in (Inr c, emit (EvDup f c) (st\<lparr>fdtab := AList.update c p (fdtab st)\<rparr>))))"

definition os_dup2 :: "fd \<Rightarrow> fd \<Rightarrow> world \<Rightarrow> unit result" where
  "os_dup2 f f2 st =
     (case map_of (fdtab st) f of
        None \<Rightarrow> (Inl (OSError EBADF ''dup2''), st)
      | Some p \<Rightarrow> (Inr (), emit (EvDup2 f f2) (st\<lparr>fdtab := AList.update f2 p (fdtab st)\<rparr>)))"

definition os_fsync :: "fd \<Rightarrow> world \<Rightarrow> unit result" where
  "os_fsync f st =
     (case map_of (fdtab st) f of
        None \<Rightarrow> (Inl (OSError EBADF ''fsync''), st)
      | Some p \<Rightarrow> (Inr (), emit (EvFsync f) st))"

definition os_close :: "fd \<Rightarrow> world \<Rightarrow> unit result" where
  "os_close f st =
     (case map_of (fdtab st) f of
        None \<Rightarrow> (Inl (OSError EBADF ''close''), st)
      | Some p \<Rightarrow> (Inr (), emit (EvClose f) (st\<lparr>fdtab := AList.delete f (fdtab st)\<rparr>)))"

text \<open>\<^verbatim>\<open>tempfile.mkstemp()\<close>: a new empty file, opened.\<close>

definition mkstemp :: "env \<Rightarrow> world \<Rightarrow> (fd \<times> path) result" where
  "mkstemp E st =
     (let path = temp_name E ''tmp'' st; f = fresh_fd (fdtab st)
      in (Inr (f, path),
          emit (EvMkstemp f path)
            (st\<lparr>fs := AList.update path (File []) (fs st),
                fdtab := AList.update f path (fdtab st)\<rparr>)))"

text \<open>\<^verbatim>\<open>tempfile.mkdtemp(prefix=...)\<close>: a new directory.\<close>

definition mkdtemp :: "env \<Rightarrow> string \<Rightarrow> world \<Rightarrow> path result" where
  "mkdtemp E prefix st =
     (let path = temp_name E prefix st
      in (Inr path, emit (EvMkdtemp path) (st\<lparr>fs := AList.update path Dir (fs st)\<rparr>)))"

definition os_remove :: "path \<Rightarrow> world \<Rightarrow> unit result" where
  "os_remove p st =
     (case map_of (fs st) p of
        None \<Rightarrow> (Inl (OSError ENOENT p), st)
      | Some Dir \<Rightarrow> (Inl (OSError EISDIR p), st)
      | Some (File s) \<Rightarrow> (Inr (), emit (EvRemove p) (st\<lparr>fs := AList.delete p (fs st)\<rparr>)))"

text \<open>\<^verbatim>\<open>shutil.rmtree(d, ignore_errors=True)\<close> removes the directory and what is
  below it, leaves in place what the platform holds locked (a loaded extension module on
  Windows) together with the directories above it, and never raises.\<close>

definition pinned :: "env \<Rightarrow> (path \<times> node) list \<Rightarrow> path \<Rightarrow> bool" where
  "pinned E F p = list_ex (\<lambda>(q, n). locked E q \<and> under (os_sep E) p q) F"

definition rmtree :: "env \<Rightarrow> path \<Rightarrow> world \<Rightarrow> world" where
  "rmtree E d st =
     emit (EvRmtree d)
       (st\<lparr>fs := filter (\<lambda>(p, n). \<not> under (os_sep E) d p \<or> pinned E (fs st) p) (fs st)\<rparr>)"

text \<open>\<^verbatim>\<open>try: body finally: final\<close>. The exception of the body is raised again when
  the final block ends normally; an exception of the final block replaces it. A
  \<^verbatim>\<open>with\<close> statement over a file object is the same with \<^verbatim>\<open>close\<close> as final
  block.\<close>

definition try_finally :: "(world \<Rightarrow> 'a result) \<Rightarrow> (world \<Rightarrow> unit result) \<Rightarrow> world \<Rightarrow> 'a result" where
  "try_finally body final st =
     (case body st of
        (r, st') \<Rightarrow> (case final st' of (Inl e, st'') \<Rightarrow> (Inl e, st'') | (Inr u, st'') \<Rightarrow> (r, st'')))"

subsection \<open>\<^verbatim>\<open>_silence\<close>\<close>

text \<open>The context manager applied to the body of its \<^verbatim>\<open>with\<close> statement; the body
  receives the path that \<^verbatim>\<open>yield path\<close> hands over.\<close>

definition dist_silence :: "env \<Rightarrow> stream \<Rightarrow> (path \<Rightarrow> world \<Rightarrow> 'a result) \<Rightarrow> world \<Rightarrow> 'a result" where
  "dist_silence E silence body st =
     (let silence_fd = fileno silence in
      bind (os_dup silence_fd st) (\<lambda>copied.
        try_finally
          (\<lambda>st. bind (stream_flush silence st) (\<lambda>u st.
                 bind (mkstemp E st) (\<lambda>(f, path) st.
                 bind (os_dup2 f silence_fd st) (\<lambda>u.
                   try_finally (body path)
                     (\<lambda>st. bind (stream_flush silence st) (\<lambda>u st.
                            bind (os_dup2 copied silence_fd st) (\<lambda>u st.
                            bind (os_fsync f st) (\<lambda>u. os_close f))))))))
          (os_close copied)))"

text \<open>A protected region that uses the stream: it writes and flushes, then returns or
  raises.\<close>

fun run_action :: "stream \<Rightarrow> action \<Rightarrow> world \<Rightarrow> unit result" where
  "run_action s (Write data) st = (Inr (), stream_write s data st)"
| "run_action s Flush st = stream_flush s st"

fun run_actions :: "stream \<Rightarrow> action list \<Rightarrow> world \<Rightarrow> unit result" where
  "run_actions s [] st = (Inr (), st)"
| "run_actions s (a # as) st = bind (run_action s a st) (\<lambda>u. run_actions s as)"

definition region :: "stream \<Rightarrow> action list \<Rightarrow> exn + 'a \<Rightarrow> path \<Rightarrow> world \<Rightarrow> 'a result" where
  "region s acts outcome path st = bind (run_actions s acts st) (\<lambda>u st'. (outcome, st'))"

fun written :: "action list \<Rightarrow> string" where
  "written [] = []"
| "written (Write data # as) = data @ written as"
| "written (Flush # as) = written as"

text \<open>What a run of actions has sent to the descriptor, given what the buffer held: the
  writes before the last flush.\<close>

fun flushed :: "action list \<Rightarrow> string \<Rightarrow> string" where
  "flushed [] b = []"
| "flushed (Write data # as) b = flushed as (b @ data)"
| "flushed (Flush # as) b = b @ flushed as []"

fun flush_events :: "stream \<Rightarrow> action list \<Rightarrow> event list" where
  "flush_events s [] = []"
| "flush_events s (Write data # as) = flush_events s as"
| "flush_events s (Flush # as) = EvFlush s # flush_events s as"

text \<open>What the buffer holds after a run of actions.\<close>

fun pending :: "action list \<Rightarrow> string \<Rightarrow> string" where
  "pending [] b = b"
| "pending (Write data # as) b = pending as (b @ data)"
| "pending (Flush # as) b = pending as []"

subsection \<open>\<^verbatim>\<open>_ffi\<close>\<close>

definition dist_ffi :: "env \<Rightarrow> world \<Rightarrow> ffi_object result" where
  "dist_ffi E st =
     bind (dist_read E (HEADER_FILES E) st) (\<lambda>header st.
     bind (dist_read E (SOURCE_FILES E) st) (\<lambda>source st.
       (let ffi = \<lparr>ffi_unicode = False, ffi_source = None, ffi_cdefs = []\<rparr>;
            ffi = ffi\<lparr>ffi_unicode := True\<rparr>;
            ffi = ffi\<lparr>ffi_source := Some (MODULE_NAME, source)\<rparr>
        in (case cdef_error E header of
              Some e \<Rightarrow> (Inl e, st)
            | None \<Rightarrow> (Inr (ffi\<lparr>ffi_cdefs := header\<rparr>), st)))))"

subsection \<open>\<^verbatim>\<open>_compile\<close>\<close>

text \<open>\<^verbatim>\<open>ffi.compile(tmpdir=tmpdir)\<close>: the toolchain writes to \<^verbatim>\<open>sys.stdout\<close>, leaves
  files behind and returns the path of the extension module or raises.\<close>

definition ffi_compile_run :: "env \<Rightarrow> ffi_object \<Rightarrow> path \<Rightarrow> world \<Rightarrow> path result" where
  "ffi_compile_run E ffi tmpdir st =
     (let b = ffi_compile E ffi tmpdir in
      bind (run_actions Stdout (b_output b) (emit (EvCompile tmpdir) st)) (\<lambda>u st.
        (b_result b, st\<lparr>fs := fold (\<lambda>(p, n). AList.update p n) (b_files b) (fs st)\<rparr>)))"

text \<open>\<^verbatim>\<open>print(text, file=stream)\<close>.\<close>

definition print_to :: "stream \<Rightarrow> string \<Rightarrow> world \<Rightarrow> world" where
  "print_to s text st = stream_write s (text @ [CHR 0x0A]) st"

text \<open>The body of the \<^verbatim>\<open>with _silence(sys.stdout) as out_path\<close> statement of
  \<^verbatim>\<open>_compile\<close>. \<^verbatim>\<open>except Exception\<close> leaves a \<^verbatim>\<open>BaseException\<close> alone. The body
  returns \<^verbatim>\<open>out_path\<close> with \<^verbatim>\<open>pyd_path\<close>: both are used after the statement.\<close>

definition compile_body :: "env \<Rightarrow> ffi_object \<Rightarrow> path \<Rightarrow> path \<Rightarrow> world \<Rightarrow> (path \<times> path) result" where
  "compile_body E ffi tmpdir out_path st =
     (case ffi_compile_run E ffi tmpdir st of
        (Inr pyd_path, st') \<Rightarrow> (Inr (out_path, pyd_path), st')
      | (Inl e, st') \<Rightarrow>
          (if is_Exception e
           then bind (open_read E out_path st') (\<lambda>text st''. (Inl e, print_to Stderr text st''))
           else (Inl e, st')))"

definition dist_compile :: "env \<Rightarrow> ffi_object \<Rightarrow> path option \<Rightarrow> world \<Rightarrow> module_handle result" where
  "dist_compile E ffi tmpdir st =
     bind (case tmpdir of None \<Rightarrow> mkdtemp E ''pywincffi-'' st | Some d \<Rightarrow> (Inr d, st)) (\<lambda>tmpdir st.
     bind (dist_silence E Stdout (compile_body E ffi tmpdir) st) (\<lambda>(out_path, pyd_path) st.
     bind (os_remove out_path st) (\<lambda>u st.
     bind (dist_import_path E pyd_path None st) (\<lambda>module st.
       (Inr module, rmtree E tmpdir st)))))"

subsection \<open>\<^verbatim>\<open>Module\<close> and \<^verbatim>\<open>load\<close>\<close>

text \<open>\<^verbatim>\<open>Module(module, mode)\<close>: the constructor warns when the cache is set
  (\<^verbatim>\<open>warnings.warn\<close> under the default filter reports and returns) and builds the
  object. It does not assign \<^verbatim>\<open>Module.cache\<close>.\<close>

definition Module_init :: "module_handle \<Rightarrow> string \<Rightarrow> world \<Rightarrow> Module \<times> world" where
  "Module_init m md st =
     (let st' = (if cache st \<noteq> None
                 then emit (EvWarn ''Module() was instanced multiple times'') st
                 else st)
      in (\<lparr>m_module = m, m_mode = md, m_ffi = mh_ffi m, m_lib = mh_lib m\<rparr>, st'))"

definition load :: "env \<Rightarrow> world \<Rightarrow> Module result" where
  "load E st =
     (case cache st of
        Some c \<Rightarrow> (Inr c, st)
      | None \<Rightarrow>
          (let st0 = emit (EvImport ''_pywincffi'') st in
           case import_module E ''_pywincffi'' of
             Inr pywincffi \<Rightarrow>
               (let (c, st') = Module_init pywincffi ''prebuilt'' st0
                in (Inr c, st'\<lparr>cache := Some c\<rparr>))
           | Inl e \<Rightarrow>
               (if is_ImportError e
                then bind (dist_ffi E st0) (\<lambda>ffi st.
                     bind (dist_compile E ffi None st) (\<lambda>m st.
                       (let (c, st') = Module_init m ''compiled'' st
                        in (Inr c, st'\<lparr>cache := Some c\<rparr>))))
                else (Inl e, st0))))"

text \<open>A process that calls \<^verbatim>\<open>load\<close> and constructs \<^verbatim>\<open>Module\<close> objects, in any
  order.\<close>

datatype op = Load | Construct module_handle string

fun run_op :: "env \<Rightarrow> op \<Rightarrow> world \<Rightarrow> world" where
  "run_op E Load st = snd (load E st)"
| "run_op E (Construct m md) st = snd (Module_init m md st)"

fun run_ops :: "env \<Rightarrow> op list \<Rightarrow> world \<Rightarrow> world" where
  "run_ops E [] st = st"
| "run_ops E (x # xs) st = run_ops E xs (run_op E x st)"

text \<open>\<^verbatim>\<open>load\<close> called \<open>n\<close> times in a row: the results, and the world left.\<close>

fun load_times :: "env \<Rightarrow> nat \<Rightarrow> world \<Rightarrow> (exn + Module) list \<times> world" where
  "load_times E 0 st = ([], st)"
| "load_times E (Suc n) st =
     (case load E st of (r, st') \<Rightarrow> (case load_times E n st' of (rs, st'') \<Rightarrow> (r # rs, st'')))"

subsection \<open>The checks of \<^verbatim>\<open>pywincffi.core.checks\<close>\<close>

fun type_of :: "pyval \<Rightarrow> pytype" where
  "type_of PNone = TNone"
| "type_of (PInt i) = TInt"
| "type_of (PStr s) = TStr"
| "type_of (PTuple vs) = TTuple"
| "type_of (PList vs) = TList"
| "type_of (PFile f) = TFile"

fun is_sequence :: "pyval \<Rightarrow> bool" where
  "is_sequence (PTuple vs) = True"
| "is_sequence (PList vs) = True"
| "is_sequence v = False"

fun items :: "pyval \<Rightarrow> pyval list" where
  "items (PTuple vs) = vs"
| "items (PList vs) = vs"
| "items v = []"

fun satisfies :: "category \<Rightarrow> pyval \<Rightarrow> bool" where
  "satisfies (ExactType t) v = (type_of v = t)"
| "satisfies FileLike v = (type_of v = TFile)"
| "satisfies UTF8Family v = (v \<in> set (map PStr [''utf-8'', ''utf-16'', ''utf-32'']))"
| "satisfies (UnknownCategory n) v = False"

text \<open>
  Modelled from the spec: \<^verbatim>\<open>input_check\<close> of \<^verbatim>\<open>pywincffi/core/checks.py\<close>, which is
  not among the sources (only its tests and its callers are). Section 4.5 of the
  specification: the value must satisfy at least one of the accepted categories, an
  unknown category being satisfied by nothing; when \<^verbatim>\<open>allowed_values\<close> is supplied the
  value must be a member of it; a failure of either raises the input error, which names
  the argument, the value, the accepted set and the allowed values; \<^verbatim>\<open>allowed_values\<close>
  that is not a sequence is a contract violation, raised at once. The contract violation
  is \<^verbatim>\<open>AssertionError\<close>, as \<^verbatim>\<open>test_assertion\<close> expects. The specification names no error
  for an empty sequence, so there the membership test decides. The accepted set is absent
  when the caller gives none (\<^verbatim>\<open>input_check("", 1, allowed_values=(2, ))\<close>).
\<close>

definition input_check :: "string \<Rightarrow> pyval \<Rightarrow> category list option \<Rightarrow> pyval option \<Rightarrow> exn + unit" where
  "input_check name v accepted allowed_values =
     (if (case allowed_values of Some av \<Rightarrow> \<not> is_sequence av | None \<Rightarrow> False)
      then Inl AssertionError
      else if (case accepted of Some cs \<Rightarrow> \<not> list_ex (\<lambda>c. satisfies c v) cs | None \<Rightarrow> False)
      then Inl (InputError name v accepted allowed_values)
      else if (case allowed_values of Some av \<Rightarrow> v \<notin> set (items av) | None \<Rightarrow> False)
      then Inl (InputError name v accepted allowed_values)
      else Inr ())"

text \<open>
  Modelled from the spec: \<^verbatim>\<open>error_check\<close> of \<^verbatim>\<open>pywincffi/core/checks.py\<close>, which is
  not among the sources. Section 4.6 of the specification: it reads the last-error code
  the most recent native call has left; the code of success (zero) makes it return; any
  other code makes it raise the error that carries the operation name, the code, and the
  message of the platform for that code when there is one.
\<close>

definition error_check :: "env \<Rightarrow> string \<Rightarrow> world \<Rightarrow> unit result" where
  "error_check E operation st =
     (let code = last_error st; st' = emit (EvErrorCheck operation) st
      in if code = 0 then (Inr (), st')
         else (Inl (WindowsAPIError operation code (format_message E code)), st'))"

subsection \<open>\<^verbatim>\<open>CheckTokenMembership\<close>\<close>

text \<open>\<^verbatim>\<open>six.integer_types\<close>.\<close>

definition integer_types :: "category list" where
  "integer_types = [ExactType TInt]"

text \<open>A call of a symbol of \<^verbatim>\<open>lib\<close>: the native function runs on the arguments and
  leaves its last-error code.\<close>

definition call_native :: "string \<Rightarrow> native_fn \<Rightarrow> cdata list \<Rightarrow> world \<Rightarrow> pyval result" where
  "call_native name f args st =
     (case f args (last_error st) of
        (r, code) \<Rightarrow> (r, emit (EvCall name args) (st\<lparr>last_error := code\<rparr>)))"

definition CheckTokenMembership :: "env \<Rightarrow> pyval \<Rightarrow> pyval \<Rightarrow> pyval \<Rightarrow> world \<Rightarrow> pyval result" where
  "CheckTokenMembership E TokenHandle SidToCheck IsMember st =
     bind (input_check ''TokenHandle'' TokenHandle (Some integer_types) None, st) (\<lambda>u st.
     bind (input_check ''SidToCheck'' SidToCheck (Some integer_types) None, st) (\<lambda>u st.
     bind (input_check ''IsMember'' IsMember (Some integer_types) None, st) (\<lambda>u st.
     bind (load E st) (\<lambda>c st.
       (let ffi = m_ffi c; library = m_lib c in
        case library ''CreateToolhelp32Snapshot'' of
          None \<Rightarrow> (Inl (AttributeError ''CreateToolhelp32Snapshot''), st)
        | Some CreateToolhelp32Snapshot \<Rightarrow>
            bind (cast ffi ''HANDLE'' TokenHandle, st) (\<lambda>a1 st.
            bind (cast ffi ''PSID'' SidToCheck, st) (\<lambda>a2 st.
            bind (cast ffi ''DWORD'' IsMember, st) (\<lambda>a3 st.
            bind (call_native ''CreateToolhelp32Snapshot'' CreateToolhelp32Snapshot [a1, a2, a3] st)
              (\<lambda>sid st.
            bind (error_check E ''CheckTokenMembership'' st) (\<lambda>u st.
              (Inr sid, st)))))))))))"

subsection \<open>The worlds of a suppression scope\<close>

text \<open>The steps of \<^verbatim>\<open>_silence\<close> written out for a stream whose descriptor is open and
  refers to \<open>orig\<close>: the world after \<^verbatim>\<open>os.dup\<close> and the first flush, the path and the
  descriptor \<^verbatim>\<open>mkstemp\<close> returns, the world in which the body starts, and the world
  the \<^verbatim>\<open>finally\<close> block and the end of the \<^verbatim>\<open>with\<close> statement make of the world
  the body leaves.\<close>

definition silence_flushed :: "stream \<Rightarrow> path \<Rightarrow> world \<Rightarrow> world" where
  "silence_flushed s orig st =
     (let c = fresh_fd (fdtab st);
          st1 = emit (EvDup (fileno s) c) (st\<lparr>fdtab := AList.update c orig (fdtab st)\<rparr>)
      in emit (EvFlush s) (set_buffer s [] (st1\<lparr>fs := append_file orig (buffer s st1) (fs st1)\<rparr>)))"

definition silence_path :: "env \<Rightarrow> stream \<Rightarrow> path \<Rightarrow> world \<Rightarrow> path" where
  "silence_path E s orig st = temp_name E ''tmp'' (silence_flushed s orig st)"

definition silence_fd :: "stream \<Rightarrow> path \<Rightarrow> world \<Rightarrow> fd" where
  "silence_fd s orig st = fresh_fd (fdtab (silence_flushed s orig st))"

definition silence_enter :: "env \<Rightarrow> stream \<Rightarrow> path \<Rightarrow> world \<Rightarrow> world" where
  "silence_enter E s orig st =
     (let st2 = silence_flushed s orig st;
          p = silence_path E s orig st;
          t = silence_fd s orig st;
          st3 = emit (EvMkstemp t p)
                  (st2\<lparr>fs := AList.update p (File []) (fs st2),
                       fdtab := AList.update t p (fdtab st2)\<rparr>)
      in emit (EvDup2 t (fileno s)) (st3\<lparr>fdtab := AList.update (fileno s) p (fdtab st3)\<rparr>))"

definition silence_exit :: "stream \<Rightarrow> path \<Rightarrow> fd \<Rightarrow> fd \<Rightarrow> path \<Rightarrow> world \<Rightarrow> world" where
  "silence_exit s orig c t p st5 =
     (let st6 = emit (EvFlush s) (set_buffer s [] (st5\<lparr>fs := append_file p (buffer s st5) (fs st5)\<rparr>));
          st7 = emit (EvDup2 c (fileno s)) (st6\<lparr>fdtab := AList.update (fileno s) orig (fdtab st6)\<rparr>);
          st8 = emit (EvFsync t) st7;
          st9 = emit (EvClose t) (st8\<lparr>fdtab := AList.delete t (fdtab st8)\<rparr>)
      in emit (EvClose c) (st9\<lparr>fdtab := AList.delete c (fdtab st9)\<rparr>))"

subsection \<open>Notions used to state what \<^verbatim>\<open>_compile\<close> does\<close>

text \<open>The loading mechanism \<^verbatim>\<open>_import_path\<close> uses: \<^verbatim>\<open>ExtensionFileLoader\<close> when it
  was imported, \<^verbatim>\<open>imp\<close> otherwise.\<close>

definition extension_loader :: "env \<Rightarrow> (string \<Rightarrow> path \<Rightarrow> exn + module_handle) option" where
  "extension_loader E = (case ExtensionFileLoader E of Some l \<Rightarrow> Some l | None \<Rightarrow> imp E)"

text \<open>The files a build leaves, as a map.\<close>

definition built_files :: "build \<Rightarrow> path \<Rightarrow> node option" where
  "built_files b = map_of (fold (\<lambda>(p, n). AList.update p n) (b_files b) [])"

text \<open>The directory \<^verbatim>\<open>_compile\<close> builds in, and the world once that directory is
  there.\<close>

definition compile_tmpdir :: "env \<Rightarrow> path option \<Rightarrow> world \<Rightarrow> path" where
  "compile_tmpdir E tmpdir st =
     (case tmpdir of None \<Rightarrow> temp_name E ''pywincffi-'' st | Some d \<Rightarrow> d)"

definition compile_start :: "env \<Rightarrow> path option \<Rightarrow> world \<Rightarrow> world" where
  "compile_start E tmpdir st =
     (case tmpdir of
        None \<Rightarrow> (let d = temp_name E ''pywincffi-'' st
                 in emit (EvMkdtemp d) (st\<lparr>fs := AList.update d Dir (fs st)\<rparr>))
      | Some d \<Rightarrow> st)"

text \<open>The world a build leaves when it starts in \<open>st\<close> with \<^verbatim>\<open>sys.stdout\<close> going to
  the file \<open>p\<close>.\<close>

definition built_world :: "env \<Rightarrow> ffi_object \<Rightarrow> path \<Rightarrow> path \<Rightarrow> world \<Rightarrow> world" where
  "built_world E ffi d p st =
     (let b = ffi_compile E ffi d
      in set_buffer Stdout (pending (b_output b) (buffer Stdout st))
           (st\<lparr>fs := fold (\<lambda>(p, n). AList.update p n) (b_files b)
                       (append_file p (flushed (b_output b) (buffer Stdout st)) (fs st)),
               trace := trace st @ [EvCompile d] @ flush_events Stdout (b_output b)\<rparr>))"

text \<open>The world at the end of the \<^verbatim>\<open>with\<close> statement of \<^verbatim>\<open>_compile\<close>, started in
  \<open>st0\<close> with \<^verbatim>\<open>sys.stdout\<close> going to \<open>orig\<close>: when the build has returned, and when
  it has raised an \<^verbatim>\<open>Exception\<close> and the handler has printed the capture file.\<close>

definition silenced_build :: "env \<Rightarrow> ffi_object \<Rightarrow> path \<Rightarrow> path \<Rightarrow> world \<Rightarrow> world" where
  "silenced_build E ffi d orig st0 =
     silence_exit Stdout orig (fresh_fd (fdtab st0)) (silence_fd Stdout orig st0)
       (silence_path E Stdout orig st0)
       (built_world E ffi d (silence_path E Stdout orig st0) (silence_enter E Stdout orig st0))"

definition replayed_build :: "env \<Rightarrow> ffi_object \<Rightarrow> path \<Rightarrow> path \<Rightarrow> world \<Rightarrow> world" where
  "replayed_build E ffi d orig st0 =
     silence_exit Stdout orig (fresh_fd (fdtab st0)) (silence_fd Stdout orig st0)
       (silence_path E Stdout orig st0)
       (print_to Stderr (universal_newlines (flushed (b_output (ffi_compile E ffi d)) []))
          (emit (EvOpen (silence_path E Stdout orig st0))
             (built_world E ffi d (silence_path E Stdout orig st0)
                (silence_enter E Stdout orig st0))))"

text \<open>The world \<^verbatim>\<open>_compile\<close> leaves when the build has returned \<open>pyd\<close> and the
  extension module has been loaded: the capture file removed, the module loaded, the
  directory removed as far as the platform allows.\<close>

definition compiled_world :: "env \<Rightarrow> ffi_object \<Rightarrow> path \<Rightarrow> path \<Rightarrow> world \<Rightarrow> path \<Rightarrow> world" where
  "compiled_world E ffi d orig st0 pyd =
     rmtree E d
       (emit (EvLoadModule MODULE_NAME pyd)
          (emit (EvRemove (silence_path E Stdout orig st0))
             ((silenced_build E ffi d orig st0)
                \<lparr>fs := AList.delete (silence_path E Stdout orig st0)
                         (fs (silenced_build E ffi d orig st0))\<rparr>)))"

text \<open>Events of the build and of the loader, to count them.\<close>

fun is_compile :: "event \<Rightarrow> bool" where
  "is_compile (EvCompile d) = True"
| "is_compile e = False"

fun is_load :: "event \<Rightarrow> bool" where
  "is_load (EvLoadModule n p) = True"
| "is_load e = False"

subsection \<open>Notions used to state what the fallback of \<^verbatim>\<open>load\<close> does\<close>

text \<open>The \<^verbatim>\<open>FFI\<close> instance \<^verbatim>\<open>_ffi\<close> builds from the fragments of a world, and the
  world it leaves: every fragment has been opened, the headers first.\<close>

definition assembled :: "env \<Rightarrow> world \<Rightarrow> ffi_object" where
  "assembled E st =
     \<lparr>ffi_unicode = True,
      ffi_source = Some (MODULE_NAME, concat (map (read_text st) (SOURCE_FILES E))),
      ffi_cdefs = concat (map (read_text st) (HEADER_FILES E))\<rparr>"

definition after_assembly :: "env \<Rightarrow> world \<Rightarrow> world" where
  "after_assembly E st = st\<lparr>trace := trace st @ map EvOpen (HEADER_FILES E @ SOURCE_FILES E)\<rparr>"

fun is_open :: "event \<Rightarrow> bool" where
  "is_open (EvOpen p) = True"
| "is_open e = False"

subsection \<open>Example worlds\<close>

definition w0 :: world where
  "w0 = \<lparr>fs = [(''a.h'', File ''int a;''), (''b.h'', File ''int b;''), (''d'', Dir)],
         fdtab = [(0, ''/dev/stdin''), (1, ''/dev/tty''), (2, ''/dev/tty'')],
         stdout_buf = [], stderr_buf = [], cache = None, last_error = 0, trace = []\<rparr>"


fun native0 :: native_fn where
  "native0 [CData t1 a, CData t2 b, CData t3 c] code = (Inr (PInt (a + b + c)), 0)"
| "native0 args code = (Inl (TypeError ''arity''), code)"

fun cast0 :: "string \<Rightarrow> pyval \<Rightarrow> exn + cdata" where
  "cast0 ty (PInt i) = Inr (CData ty i)"
| "cast0 ty v = Inl (TypeError ''cast'')"

definition h0 :: module_handle where
  "h0 = \<lparr>mh_name = ''_pywincffi'',
         mh_ffi = \<lparr>cast = cast0\<rparr>,
         mh_lib = (\<lambda>n. if n = ''CreateToolhelp32Snapshot'' then Some native0 else None)\<rparr>"

definition E0 :: env where
  "E0 = \<lparr>os_sep = ''/'', posix = True, tempdir = ''/tmp'', resource_root = (\<lambda>p. ''/pkg/'' @ p),
         repr = (\<lambda>s. [CHR 0x27] @ s @ [CHR 0x27]),
         import_module = (\<lambda>n. Inl (ModuleNotFoundError n)),
         ExtensionFileLoader = Some (\<lambda>n p. Inr h0), imp = None,
         cdef_error = (\<lambda>s. None),
         ffi_compile = (\<lambda>f d. \<lparr>b_output = [Write ''cc main.c'', Flush, Write ''done''],
                                  b_files = [(d @ ''/_pywincffi.pyd'', File ''ELF'')],
                                  b_result = Inr (d @ ''/_pywincffi.pyd'')\<rparr>),
         locked = (\<lambda>p. False), format_message = (\<lambda>c. None)\<rparr>"

text \<open>The environment \<open>E0\<close> with a prebuilt module installed, with a prebuilt module
  that is found and fails to load, and with one whose import raises another error.\<close>

definition E_prebuilt :: env where
  "E_prebuilt = E0\<lparr>import_module := (\<lambda>n. Inr h0)\<rparr>"

definition E_broken :: env where
  "E_broken = E0\<lparr>import_module := (\<lambda>n. Inl (ImportError ''DLL load failed''))\<rparr>"

definition E_other :: env where
  "E_other = E0\<lparr>import_module := (\<lambda>n. Inl (TypeError ''bad module''))\<rparr>"

definition c0 :: Module where
  "c0 = \<lparr>m_module = h0, m_mode = ''prebuilt'', m_ffi = mh_ffi h0, m_lib = mh_lib h0\<rparr>"

text \<open>The environment \<open>E0\<close> on Windows.\<close>

definition E_nt :: env where
  "E_nt = E0\<lparr>os_sep := [CHR 0x5C], posix := False\<rparr>"

text \<open>A world with a fragment whose lines end in CR LF.\<close>

definition w3 :: world where
  "w3 = \<lparr>fs = [(''a.h'', File ''int a;''),
               (''crlf.h'', File [CHR ''a'', CHR 0x0D, CHR 0x0A, CHR ''b'']), (''d'', Dir)],
         fdtab = [(0, ''/dev/stdin''), (1, ''/dev/tty''), (2, ''/dev/tty'')],
         stdout_buf = [], stderr_buf = [], cache = None, last_error = 0, trace = []\<rparr>"

text \<open>A world whose \<^verbatim>\<open>sys.stdout\<close> goes to a log file and has text buffered.\<close>

definition w1 :: world where
  "w1 = \<lparr>fs = [(''/out.log'', File ''log:''), (''/build'', Dir)],
         fdtab = [(0, ''/dev/stdin''), (1, ''/out.log''), (2, ''/dev/tty'')],
         stdout_buf = ''early '', stderr_buf = [], cache = None, last_error = 0, trace = []\<rparr>"

text \<open>A build that fails after output that is partly flushed, one that fails after
  output that is flushed to the end, one that fails after a line ending in CR LF, a
  platform that holds every path locked, a world with an old build directory and a file
  outside it, and an \<^verbatim>\<open>FFI\<close> instance.\<close>

definition E_fail :: env where
  "E_fail = E0\<lparr>ffi_compile := (\<lambda>f d. \<lparr>b_output = [Write ''cc main.c'', Flush, Write ''error''],
                                         b_files = [],
                                         b_result = Inl (Exception ''compile failed'')\<rparr>)\<rparr>"

definition E_flushed :: env where
  "E_flushed = E0\<lparr>ffi_compile := (\<lambda>f d. \<lparr>b_output = [Write ''cc main.c'', Flush, Write ''error'', Flush],
                                            b_files = [],
                                            b_result = Inl (Exception ''compile failed'')\<rparr>)\<rparr>"

definition E_crlf :: env where
  "E_crlf = E0\<lparr>ffi_compile := (\<lambda>f d. \<lparr>b_output = [Write [CHR ''a'', CHR 0x0D, CHR 0x0A], Flush],
                                         b_files = [],
                                         b_result = Inl (Exception ''compile failed'')\<rparr>)\<rparr>"

definition E_locked :: env where
  "E_locked = E0\<lparr>locked := (\<lambda>p. True)\<rparr>"

definition w4 :: world where
  "w4 = \<lparr>fs = [(''/out.log'', File ''log:''), (''/build'', Dir), (''/build/old.o'', File ''o''),
               (''/keep.txt'', File ''k'')],
         fdtab = [(0, ''/dev/stdin''), (1, ''/out.log''), (2, ''/dev/tty'')],
         stdout_buf = ''early '', stderr_buf = [], cache = None, last_error = 0, trace = []\<rparr>"

definition f0 :: ffi_object where
  "f0 = \<lparr>ffi_unicode = True, ffi_source = Some (MODULE_NAME, ''int main;''), ffi_cdefs = ''int a;''\<rparr>"

text \<open>A world with the four fragments of \<open>E0\<close> installed and \<^verbatim>\<open>sys.stdout\<close> going to
  a log file.\<close>

definition w2 :: world where
  "w2 = \<lparr>fs = [(''/pkg/pywincffi/core/cdefs/headers/constants.h'', File ''#define A ...''),
               (''/pkg/pywincffi/core/cdefs/headers/structs.h'', File ''struct s;''),
               (''/pkg/pywincffi/core/cdefs/headers/functions.h'', File ''int f();''),
               (''/pkg/pywincffi/core/cdefs/sources/main.c'', File ''int main;''),
               (''/out.log'', File [])],
         fdtab = [(0, ''/dev/stdin''), (1, ''/out.log''), (2, ''/dev/tty'')],
         stdout_buf = [], stderr_buf = [], cache = None, last_error = 0, trace = []\<rparr>"

definition c1 :: Module where
  "c1 = \<lparr>m_module = h0, m_mode = ''compiled'', m_ffi = mh_ffi h0, m_lib = mh_lib h0\<rparr>"

section \<open>Properties\<close>

subsection \<open>Reading the fragments\<close>

lemma fs_emit [simp]: "fs (emit e st) = fs st"
  by (simp add: emit_def)

lemma isfile_trace [simp]: "isfile (st\<lparr>trace := t\<rparr>) p = isfile st p"
  by (simp add: isfile_def)

lemma file_text_trace [simp]: "file_text (st\<lparr>trace := t\<rparr>) p = file_text st p"
  by (simp add: file_text_def)

lemma read_text_trace [simp]: "read_text (st\<lparr>trace := t\<rparr>) p = read_text st p"
  by (simp add: read_text_def)

lemma missing_trace [simp]: "missing (st\<lparr>trace := t\<rparr>) p = missing st p"
  by (simp add: missing_def)

lemma below_file_trace [simp]: "below_file sep (st\<lparr>trace := t\<rparr>) p = below_file sep st p"
  by (simp add: below_file_def)

lemma isfile_emit [simp]: "isfile (emit e st) p = isfile st p"
  by (simp add: emit_def)

lemma file_text_emit [simp]: "file_text (emit e st) p = file_text st p"
  by (simp add: emit_def)

lemma read_text_emit [simp]: "read_text (emit e st) p = read_text st p"
  by (simp add: emit_def)

lemma missing_emit [simp]: "missing (emit e st) p = missing st p"
  by (simp add: emit_def)

lemma below_file_emit [simp]: "below_file sep (emit e st) p = below_file sep st p"
  by (simp add: emit_def)

lemma enotdir_trace [simp]: "enotdir E (st\<lparr>trace := t\<rparr>) p = enotdir E st p"
  by (simp add: enotdir_def)

lemma enotdir_emit [simp]: "enotdir E (emit e st) p = enotdir E st p"
  by (simp add: enotdir_def)

lemma open_read_file:
  "isfile st p \<Longrightarrow> open_read E p st = (Inr (read_text st p), emit (EvOpen p) st)"
  by (auto simp: isfile_def open_read_def read_text_def file_text_def
           split: option.splits node.splits)

lemma open_read_missing:
  "missing st p \<Longrightarrow> \<not> enotdir E st p \<Longrightarrow>
   open_read E p st = (Inl (OSError ENOENT p), emit (EvOpen p) st)"
  by (simp add: missing_def open_read_def)

lemma open_read_below:
  "missing st p \<Longrightarrow> enotdir E st p \<Longrightarrow>
   open_read E p st = (Inl (OSError ENOTDIR p), emit (EvOpen p) st)"
  by (simp add: missing_def open_read_def)

lemma open_read_dir:
  "map_of (fs st) p = Some Dir \<Longrightarrow>
   open_read E p st = (Inl (OSError EISDIR p), emit (EvOpen p) st)"
  by (simp add: open_read_def)

lemma open_read_Inr:
  "fst (open_read E p st) = Inr s \<Longrightarrow> isfile st p"
  by (auto simp: isfile_def open_read_def split: option.splits node.splits)

lemma open_read_snd: "snd (open_read E p st) = emit (EvOpen p) st"
  by (auto simp: open_read_def split: option.splits node.splits)

lemma emit_emit_trace: "emit e (st\<lparr>trace := t\<rparr>) = st\<lparr>trace := t @ [e]\<rparr>"
  by (simp add: emit_def)

lemma emit_as_update: "emit e st = st\<lparr>trace := trace st @ [e]\<rparr>"
  by (simp add: emit_def)

lemma read_loop_files:
  "\<forall>p\<in>set paths. isfile st p \<Longrightarrow>
   read_loop E paths out st =
     (Inr (out @ concat (map (read_text st) paths)), st\<lparr>trace := trace st @ map EvOpen paths\<rparr>)"
proof (induction paths arbitrary: out st)
  case Nil
  then show ?case by simp
next
  case (Cons p ps)
  have a: "\<forall>q\<in>set ps. isfile (emit (EvOpen p) st) q"
    using Cons.prems by simp
  have ft: "map (read_text (emit (EvOpen p) st)) ps = map (read_text st) ps"
    by simp
  show ?case
    using Cons.prems Cons.IH [OF a] ft
    by (simp add: open_read_file emit_as_update)
qed

lemma open_read_fst_emit [simp]: "fst (open_read E p (emit e st)) = fst (open_read E p st)"
  by (simp add: open_read_def split: option.splits node.splits)

lemma open_read_eq: "open_read E p st = (fst (open_read E p st), emit (EvOpen p) st)"
  using open_read_snd [of E p st] by (cases "open_read E p st") simp

text \<open>The loop stops at the first path that \<^verbatim>\<open>open\<close> refuses, with the error
  \<open>err\<close> that \<^verbatim>\<open>_read\<close> makes of the one of \<^verbatim>\<open>open\<close>.\<close>

lemma read_loop_stops:
  assumes "\<forall>q\<in>set pre. isfile st q"
    and "fst (open_read E p st) = Inl e"
    and "err = (if errno_of e = Some ENOENT
                then ResourceNotFoundError (''Failed to locate '' @ p) else e)"
  shows "read_loop E (pre @ p # post) out st =
           (Inl err, st\<lparr>trace := trace st @ map EvOpen (pre @ [p])\<rparr>)"
  using assms(1,2)
proof (induction pre arbitrary: out st)
  case Nil
  have "open_read E p st = (Inl e, emit (EvOpen p) st)"
    using open_read_eq [of E p st] Nil.prems(2) by simp
  then show ?case by (simp add: assms(3) emit_as_update)
next
  case (Cons q qs)
  have a: "\<forall>r\<in>set qs. isfile (emit (EvOpen q) st) r"
    using Cons.prems(1) by simp
  have b: "fst (open_read E p (emit (EvOpen q) st)) = Inl e"
    using Cons.prems(2) by simp
  show ?case
    using Cons.prems(1) Cons.IH [OF a b]
    by (simp add: open_read_file emit_as_update)
qed

lemma read_loop_missing:
  "\<forall>q\<in>set pre. isfile st q \<Longrightarrow> missing st p \<Longrightarrow> \<not> enotdir E st p \<Longrightarrow>
   read_loop E (pre @ p # post) out st =
     (Inl (ResourceNotFoundError (''Failed to locate '' @ p)),
      st\<lparr>trace := trace st @ map EvOpen (pre @ [p])\<rparr>)"
  by (rule read_loop_stops [where e = "OSError ENOENT p"])
     (simp_all add: open_read_missing)

lemma read_loop_below:
  "\<forall>q\<in>set pre. isfile st q \<Longrightarrow> missing st p \<Longrightarrow> enotdir E st p \<Longrightarrow>
   read_loop E (pre @ p # post) out st =
     (Inl (OSError ENOTDIR p), st\<lparr>trace := trace st @ map EvOpen (pre @ [p])\<rparr>)"
  by (rule read_loop_stops [where e = "OSError ENOTDIR p"])
     (simp_all add: open_read_below)

lemma read_loop_dir:
  "\<forall>q\<in>set pre. isfile st q \<Longrightarrow> map_of (fs st) p = Some Dir \<Longrightarrow>
   read_loop E (pre @ p # post) out st =
     (Inl (OSError EISDIR p), st\<lparr>trace := trace st @ map EvOpen (pre @ [p])\<rparr>)"
  by (rule read_loop_stops [where e = "OSError EISDIR p"])
     (simp_all add: open_read_dir)

lemma read_loop_Inr:
  "fst (read_loop E paths out st) = Inr r \<Longrightarrow> \<forall>p\<in>set paths. isfile st p"
proof (induction paths arbitrary: out st)
  case Nil
  then show ?case by simp
next
  case (Cons p ps)
  obtain x st' where o: "open_read E p st = (x, st')" by (cases "open_read E p st")
  show ?case
  proof (cases x)
    case (Inl e)
    with o Cons.prems show ?thesis by (simp split: if_splits)
  next
    case (Inr s)
    have st': "st' = emit (EvOpen p) st" using o open_read_snd [of E p st] by simp
    have "isfile st p" using o Inr open_read_Inr [of E p st s] by simp
    moreover have "\<forall>q\<in>set ps. isfile st' q"
      using Cons.IH [of "out @ s" st'] Cons.prems o Inr by simp
    ultimately show ?thesis using st' by simp
  qed
qed




subsection \<open>Importing a path\<close>

text \<open>
  C7. \<^verbatim>\<open>_import_path\<close> called with a path that is not an existing regular file (a
  path that does not exist, or a directory) raises \<^verbatim>\<open>ResourceNotFoundError\<close> with the
  message \<^verbatim>\<open>"Module path %r does not exist" % path\<close>, and leaves the world as it was:
  no loader has been called, so no module is loaded.
\<close>

theorem import_path_not_a_file:
  "\<not> isfile st path \<Longrightarrow>
   dist_import_path E path module_name st =
     (Inl (ResourceNotFoundError (''Module path '' @ repr E path @ '' does not exist'')), st)"
  by (simp add: dist_import_path_def Let_def)

theorem import_path_not_a_file_witness:
  "\<not> isfile w0 ''d''
   \<and> dist_import_path E0 ''d'' None w0 =
       (Inl (ResourceNotFoundError (''Module path '' @ repr E0 ''d'' @ '' does not exist'')), w0)"
  using import_path_not_a_file [of w0 "''d''" E0 None]
  by (simp add: isfile_def w0_def)

subsection \<open>The checks\<close>

text \<open>
  C8. The allowed-values check of the input validator: a value that is not in the
  supplied sequence raises \<^verbatim>\<open>InputError\<close>, whose payload holds the allowed values
  (whatever accepted set was given); a value that is in the sequence passes, the check
  returning nothing; and allowed values that are not a sequence raise
  \<^verbatim>\<open>AssertionError\<close>, the contract violation, which is not an \<^verbatim>\<open>InputError\<close>.
\<close>

theorem input_check_allowed_values:
  "(is_sequence av \<and> v \<notin> set (items av) \<longrightarrow>
      input_check name v accepted (Some av) = Inl (InputError name v accepted (Some av)))
   \<and> (is_sequence av \<and> v \<in> set (items av) \<longrightarrow> input_check name v None (Some av) = Inr ())
   \<and> (\<not> is_sequence av \<longrightarrow>
        input_check name v accepted (Some av) = Inl AssertionError
        \<and> \<not> is_InputError AssertionError)"
  by (simp add: input_check_def)

theorem input_check_allowed_values_witness:
  "input_check ''x'' (PInt 1) None (Some (PTuple [PInt 2]))
     = Inl (InputError ''x'' (PInt 1) None (Some (PTuple [PInt 2])))
   \<and> input_check ''x'' (PInt 1) None (Some (PTuple [PInt 1])) = Inr ()
   \<and> input_check ''x'' (PInt 1) None (Some (PInt 1)) = Inl AssertionError"
  using input_check_allowed_values [of "PTuple [PInt 2]" "PInt 1" "''x''" None]
    input_check_allowed_values [of "PTuple [PInt 1]" "PInt 1" "''x''" None]
    input_check_allowed_values [of "PInt 1" "PInt 1" "''x''" None]
  by simp

subsection \<open>The cache\<close>

lemma bind_Inr:
  "bind r f = (Inr y, st') \<Longrightarrow> \<exists>x st1. r = (Inr x, st1) \<and> f x st1 = (Inr y, st')"
  by (auto simp: bind_def split: prod.splits sum.splits)

lemma bind_Inr_eq [simp]: "bind (Inr x, st) f = f x st"
  by (simp add: bind_def)

lemma bind_Inl_eq [simp]: "bind (Inl e, st) f = (Inl e, st)"
  by (simp add: bind_def)

lemma load_cached: "cache st = Some c \<Longrightarrow> load E st = (Inr c, st)"
  by (simp add: load_def)

lemma Module_init_cache: "cache (snd (Module_init m md st)) = cache st"
  by (simp add: Module_init_def Let_def emit_def)

lemma populate_cache:
  "(case Module_init m md st of (c, st') \<Rightarrow> (Inr c, st'\<lparr>cache := Some c\<rparr>)) = (Inr c', st'')
   \<Longrightarrow> cache st'' = Some c'"
  by (auto split: prod.splits)

lemma load_success_cache:
  assumes "load E st = (Inr c, st')"
  shows "cache st' = Some c"
proof (cases "cache st")
  case (Some d)
  with assms show ?thesis by (simp add: load_def)
next
  case None
  show ?thesis
  proof (cases "import_module E ''_pywincffi''")
    case (Inr h)
    with None assms show ?thesis
      by (auto simp: load_def Let_def split: prod.splits)
  next
    case (Inl e)
    show ?thesis
    proof (cases "is_ImportError e")
      case False
      with None Inl assms show ?thesis by (simp add: load_def Let_def)
    next
      case True
      with None Inl assms show ?thesis
        by (auto simp: load_def Let_def dest!: bind_Inr dest: populate_cache)
    qed
  qed
qed

lemma load_times_cached:
  "cache st = Some c \<Longrightarrow> load_times E n st = (replicate n (Inr c), st)"
  by (induction n) (simp_all add: load_cached)

text \<open>
  C1. After a call of \<^verbatim>\<open>load\<close> that has returned, every further call returns the same
  \<^verbatim>\<open>Module\<close> object (the same handle, the same mode) and leaves the world exactly as
  it was: the filesystem, the descriptors and the trace are those of before the call, so
  nothing is opened, compiled or imported again. This holds for one further call and for
  any number \<open>n\<close> of them in a row.
\<close>

theorem load_idempotent:
  "load E st = (Inr c, st') \<Longrightarrow>
   load E st' = (Inr c, st') \<and> load_times E n st' = (replicate n (Inr c), st')"
  using load_success_cache [of E st c st'] by (simp add: load_cached load_times_cached)

lemma load_prebuilt:
  "cache st = None \<Longrightarrow> import_module E ''_pywincffi'' = Inr h \<Longrightarrow>
   load E st =
     (Inr \<lparr>m_module = h, m_mode = ''prebuilt'', m_ffi = mh_ffi h, m_lib = mh_lib h\<rparr>,
      (emit (EvImport ''_pywincffi'') st)
        \<lparr>cache := Some \<lparr>m_module = h, m_mode = ''prebuilt'', m_ffi = mh_ffi h, m_lib = mh_lib h\<rparr>\<rparr>)"
  by (simp add: load_def Let_def Module_init_def emit_def)

lemma w0_cache: "cache w0 = None"
  by (simp add: w0_def)

lemma E_prebuilt_import: "import_module E_prebuilt ''_pywincffi'' = Inr h0"
  by (simp add: E_prebuilt_def)

lemma load_E_prebuilt_w0:
  "load E_prebuilt w0 = (Inr c0, (emit (EvImport ''_pywincffi'') w0)\<lparr>cache := Some c0\<rparr>)"
  unfolding c0_def by (rule load_prebuilt [OF w0_cache E_prebuilt_import])

theorem load_idempotent_witness:
  "load E_prebuilt w0 = (Inr c0, (emit (EvImport ''_pywincffi'') w0)\<lparr>cache := Some c0\<rparr>)
   \<and> load_times E_prebuilt 3 ((emit (EvImport ''_pywincffi'') w0)\<lparr>cache := Some c0\<rparr>)
       = ([Inr c0, Inr c0, Inr c0], (emit (EvImport ''_pywincffi'') w0)\<lparr>cache := Some c0\<rparr>)"
  using load_idempotent [OF load_E_prebuilt_w0, of 3] load_E_prebuilt_w0
  by (simp add: numeral_3_eq_3)

lemma run_op_cache: "cache st = Some c \<Longrightarrow> cache (run_op E x st) = Some c"
  by (cases x) (simp_all add: load_cached Module_init_cache)

lemma run_ops_cache: "cache st = Some c \<Longrightarrow> cache (run_ops E xs st) = Some c"
  by (induction xs arbitrary: st) (simp_all add: run_op_cache)

text \<open>
  C9. Once \<^verbatim>\<open>load\<close> has populated the cache, constructing another \<^verbatim>\<open>Module\<close> emits
  the warning "Module() was instanced multiple times" and returns the new object normally
  (it is not an error), the cache still holds the first instance afterwards, and it still
  holds it after any sequence of further \<^verbatim>\<open>load\<close> calls and constructions.
\<close>

theorem cache_keeps_first_instance:
  "load E st = (Inr c, st') \<Longrightarrow>
   Module_init m md st' =
     (\<lparr>m_module = m, m_mode = md, m_ffi = mh_ffi m, m_lib = mh_lib m\<rparr>,
      emit (EvWarn ''Module() was instanced multiple times'') st')
   \<and> cache (snd (Module_init m md st')) = Some c
   \<and> cache (run_ops E' ops st') = Some c"
  using load_success_cache [of E st c st']
  by (simp add: run_ops_cache Module_init_def emit_def)

theorem cache_keeps_first_instance_witness:
  "load E_prebuilt w0 = (Inr c0, (emit (EvImport ''_pywincffi'') w0)\<lparr>cache := Some c0\<rparr>)
   \<and> cache (run_ops E0 [Construct h0 ''compiled'', Load, Construct h0 ''x'']
              ((emit (EvImport ''_pywincffi'') w0)\<lparr>cache := Some c0\<rparr>)) = Some c0"
proof (rule conjI)
  show "load E_prebuilt w0 = (Inr c0, (emit (EvImport ''_pywincffi'') w0)\<lparr>cache := Some c0\<rparr>)"
    by (rule load_E_prebuilt_w0)
  show "cache (run_ops E0 [Construct h0 ''compiled'', Load, Construct h0 ''x'']
              ((emit (EvImport ''_pywincffi'') w0)\<lparr>cache := Some c0\<rparr>)) = Some c0"
    by (rule cache_keeps_first_instance
          [OF load_E_prebuilt_w0, THEN conjunct2, THEN conjunct2])
qed

subsection \<open>The cold call\<close>

lemma load_import_raises:
  "cache st = None \<Longrightarrow> import_module E ''_pywincffi'' = Inl e \<Longrightarrow>
   load E st =
     (if is_ImportError e
      then bind (dist_ffi E (emit (EvImport ''_pywincffi'') st)) (\<lambda>ffi st.
           bind (dist_compile E ffi None st) (\<lambda>m st.
             (let (c, st') = Module_init m ''compiled'' st
              in (Inr c, st'\<lparr>cache := Some c\<rparr>))))
      else (Inl e, emit (EvImport ''_pywincffi'') st))"
  by (simp add: load_def Let_def)

lemma E_broken_import:
  "import_module E_broken ''_pywincffi'' = Inl (ImportError ''DLL load failed'')"
  by (simp add: E_broken_def)

lemma header_E_broken:
  "HEADER_FILES E_broken =
     [''/pkg/pywincffi/core/cdefs/headers/constants.h'',
      ''/pkg/pywincffi/core/cdefs/headers/structs.h'',
      ''/pkg/pywincffi/core/cdefs/headers/functions.h'']"
  by (simp add: HEADER_FILES_def resource_filename_def E_broken_def E0_def)

lemma missing_w0_header:
  "missing w0 ''/pkg/pywincffi/core/cdefs/headers/constants.h''"
  by (simp add: missing_def w0_def)

lemma not_below_w0_header:
  "\<not> enotdir E_broken w0 ''/pkg/pywincffi/core/cdefs/headers/constants.h''"
  by (simp add: enotdir_def below_file_def under_def w0_def E_broken_def E0_def)

lemma dist_ffi_E_broken_w0:
  "dist_ffi E_broken (emit (EvImport ''_pywincffi'') w0) =
     (Inl (ResourceNotFoundError
             ''Failed to locate /pkg/pywincffi/core/cdefs/headers/constants.h''),
      w0\<lparr>trace := [EvImport ''_pywincffi'',
                     EvOpen ''/pkg/pywincffi/core/cdefs/headers/constants.h'']\<rparr>)"
proof -
  have "read_loop E_broken ([] @ ''/pkg/pywincffi/core/cdefs/headers/constants.h''
                   # [''/pkg/pywincffi/core/cdefs/headers/structs.h'',
                      ''/pkg/pywincffi/core/cdefs/headers/functions.h''])
          [] (emit (EvImport ''_pywincffi'') w0) =
        (Inl (ResourceNotFoundError
               (''Failed to locate '' @ ''/pkg/pywincffi/core/cdefs/headers/constants.h'')),
         (emit (EvImport ''_pywincffi'') w0)
           \<lparr>trace := trace (emit (EvImport ''_pywincffi'') w0)
                      @ map EvOpen ([] @ [''/pkg/pywincffi/core/cdefs/headers/constants.h''])\<rparr>)"
    by (rule read_loop_missing) (simp_all add: missing_w0_header not_below_w0_header)
  then show ?thesis
    by (simp add: dist_ffi_def dist_read_def header_E_broken emit_def w0_def)
qed

text \<open>
  C3, as stated, fails: an import of the prebuilt module that raises an
  \<^verbatim>\<open>ImportError\<close> other than "module not found" (here the module is found and fails
  to load) is caught by \<^verbatim>\<open>except ImportError\<close> as well. The error does not reach the
  caller: the fallback runs, opens the first header fragment and raises its own error.
\<close>

theorem load_import_error_counterexample:
  "import_module E_broken ''_pywincffi'' = Inl (ImportError ''DLL load failed'')
   \<and> load E_broken w0 =
       (Inl (ResourceNotFoundError
               ''Failed to locate /pkg/pywincffi/core/cdefs/headers/constants.h''),
        w0\<lparr>trace := [EvImport ''_pywincffi'',
                       EvOpen ''/pkg/pywincffi/core/cdefs/headers/constants.h'']\<rparr>)"
  using load_import_raises [OF w0_cache E_broken_import]
  by (simp add: dist_ffi_E_broken_w0 E_broken_import)

text \<open>
  C3, amended. On a cold call, an exception of the import of the prebuilt module that is
  an \<^verbatim>\<open>ImportError\<close> (module not found, or any other import failure) makes
  \<^verbatim>\<open>load\<close> continue with the fallback: assemble the definitions, compile, construct
  the \<^verbatim>\<open>Module\<close> in mode "compiled" and store it. An exception that is not an
  \<^verbatim>\<open>ImportError\<close> is raised to the caller, and nothing else is done.
\<close>

theorem load_import_outcomes:
  "cache st = None \<Longrightarrow> import_module E ''_pywincffi'' = Inl e \<Longrightarrow>
   (is_ImportError e \<longrightarrow>
      load E st =
        bind (dist_ffi E (emit (EvImport ''_pywincffi'') st)) (\<lambda>ffi st.
        bind (dist_compile E ffi None st) (\<lambda>m st.
          (let (c, st') = Module_init m ''compiled'' st
           in (Inr c, st'\<lparr>cache := Some c\<rparr>)))))
   \<and> (\<not> is_ImportError e \<longrightarrow> load E st = (Inl e, emit (EvImport ''_pywincffi'') st))"
  by (simp add: load_import_raises)

theorem load_import_outcomes_witness:
  "load E_other w0 = (Inl (TypeError ''bad module''), emit (EvImport ''_pywincffi'') w0)
   \<and> load E_broken w0 =
        bind (dist_ffi E_broken (emit (EvImport ''_pywincffi'') w0)) (\<lambda>ffi st.
        bind (dist_compile E_broken ffi None st) (\<lambda>m st.
          (let (c, st') = Module_init m ''compiled'' st
           in (Inr c, st'\<lparr>cache := Some c\<rparr>))))"
proof (rule conjI)
  have i: "import_module E_other ''_pywincffi'' = Inl (TypeError ''bad module'')"
    by (simp add: E_other_def)
  show "load E_other w0 = (Inl (TypeError ''bad module''), emit (EvImport ''_pywincffi'') w0)"
    using load_import_outcomes [OF w0_cache i] by simp
  show "load E_broken w0 =
        bind (dist_ffi E_broken (emit (EvImport ''_pywincffi'') w0)) (\<lambda>ffi st.
        bind (dist_compile E_broken ffi None st) (\<lambda>m st.
          (let (c, st') = Module_init m ''compiled'' st
           in (Inr c, st'\<lparr>cache := Some c\<rparr>))))"
    using load_import_outcomes [OF w0_cache E_broken_import] by simp
qed

subsection \<open>CheckTokenMembership\<close>

text \<open>
  C10. When the three integer checks pass, \<^verbatim>\<open>load\<close> returns the module, its
  \<^verbatim>\<open>lib\<close> has the symbol \<^verbatim>\<open>CreateToolhelp32Snapshot\<close> and the three casts succeed,
  \<^verbatim>\<open>CheckTokenMembership\<close> calls that symbol (no symbol named
  \<^verbatim>\<open>CheckTokenMembership\<close> is looked up) once, on the arguments cast to
  \<^verbatim>\<open>HANDLE\<close>, \<^verbatim>\<open>PSID\<close> and \<^verbatim>\<open>DWORD\<close> in that order, then runs
  \<^verbatim>\<open>error_check("CheckTokenMembership")\<close>; when the call has left the code of
  success the result of the native call is returned as it is, and otherwise the error
  carries the operation name "CheckTokenMembership".
\<close>

theorem CheckTokenMembership_calls:
  assumes "input_check ''TokenHandle'' TokenHandle (Some integer_types) None = Inr ()"
    and "input_check ''SidToCheck'' SidToCheck (Some integer_types) None = Inr ()"
    and "input_check ''IsMember'' IsMember (Some integer_types) None = Inr ()"
    and "load E st = (Inr c, st1)"
    and "m_lib c ''CreateToolhelp32Snapshot'' = Some f"
    and "cast (m_ffi c) ''HANDLE'' TokenHandle = Inr a1"
    and "cast (m_ffi c) ''PSID'' SidToCheck = Inr a2"
    and "cast (m_ffi c) ''DWORD'' IsMember = Inr a3"
    and "f [a1, a2, a3] (last_error st1) = (Inr sid, code)"
  shows "CheckTokenMembership E TokenHandle SidToCheck IsMember st =
     ((if code = 0 then Inr sid
       else Inl (WindowsAPIError ''CheckTokenMembership'' code (format_message E code))),
      st1\<lparr>last_error := code,
          trace := trace st1 @ [EvCall ''CreateToolhelp32Snapshot'' [a1, a2, a3],
                                EvErrorCheck ''CheckTokenMembership'']\<rparr>)"
  using assms
  by (simp add: CheckTokenMembership_def call_native_def error_check_def Let_def emit_def)

theorem CheckTokenMembership_calls_witness:
  "CheckTokenMembership E_prebuilt (PInt 1) (PInt 2) (PInt 3) w0 =
     (Inr (PInt 6),
      ((emit (EvImport ''_pywincffi'') w0)\<lparr>cache := Some c0\<rparr>)
        \<lparr>last_error := 0,
         trace := trace ((emit (EvImport ''_pywincffi'') w0)\<lparr>cache := Some c0\<rparr>)
                  @ [EvCall ''CreateToolhelp32Snapshot''
                       [CData ''HANDLE'' 1, CData ''PSID'' 2, CData ''DWORD'' 3],
                     EvErrorCheck ''CheckTokenMembership'']\<rparr>)"
proof -
  have i: "input_check n (PInt k) (Some integer_types) None = Inr ()" for n k
    by (simp add: input_check_def integer_types_def)
  have l: "m_lib c0 ''CreateToolhelp32Snapshot'' = Some native0"
    by (simp add: c0_def h0_def)
  have f: "cast (m_ffi c0) ty (PInt k) = Inr (CData ty k)" for ty k
    by (simp add: c0_def h0_def)
  have n: "native0 [CData ''HANDLE'' 1, CData ''PSID'' 2, CData ''DWORD'' 3]
             (last_error ((emit (EvImport ''_pywincffi'') w0)\<lparr>cache := Some c0\<rparr>))
           = (Inr (PInt 6), 0)"
    by simp
  show ?thesis
    using CheckTokenMembership_calls [OF i i i load_E_prebuilt_w0 l f f f n] by simp
qed

subsection \<open>Fresh descriptors and names\<close>

lemma fresh_fd_new: "fresh_fd tab \<notin> set (map fst tab)"
proof (cases "find (\<lambda>n. n \<notin> set (map fst tab)) [0..<Suc (length tab)]")
  case (Some n)
  then have "n \<notin> set (map fst tab)"
    by (auto simp: find_Some_iff)
  with Some show ?thesis by (simp add: fresh_fd_def)
next
  case None
  have "n \<in> set (map fst tab)" if "n < Suc (length tab)" for n
  proof (rule ccontr)
    assume "n \<notin> set (map fst tab)"
    moreover have "n \<in> set [0..<Suc (length tab)]" using that by auto
    ultimately have "find (\<lambda>n. n \<notin> set (map fst tab)) [0..<Suc (length tab)] \<noteq> None"
      unfolding find_None_iff by blast
    with None show False by simp
  qed
  then have "{0..<Suc (length tab)} \<subseteq> set (map fst tab)"
    by (simp add: subset_iff)
  then have "card {0..<Suc (length tab)} \<le> card (set (map fst tab))"
    by (rule card_mono [OF finite_set])
  moreover have "card (set (map fst tab)) \<le> length tab"
    using card_length [of "map fst tab"] by simp
  ultimately show ?thesis by simp
qed

lemma fresh_fd_closed: "map_of tab (fresh_fd tab) = None"
  using fresh_fd_new [of tab] by (simp add: map_of_eq_None_iff)

lemma fold_max_ge: "x \<in> set xs \<Longrightarrow> x \<le> fold max xs (a::nat)"
  by (simp add: Max.set_eq_fold [symmetric])

lemma join2: "join sep [a, b] = a @ sep @ b"
  by simp

lemma temp_name_longer:
  "q \<in> set (map fst (fs st) @ map snd (fdtab st)) \<Longrightarrow> length q < length (temp_name E pre st)"
proof -
  assume "q \<in> set (map fst (fs st) @ map snd (fdtab st))"
  then have "length q \<in> set (map length (map fst (fs st) @ map snd (fdtab st)))"
    by (metis imageI set_map)
  then have "length q \<le> fold max (map length (map fst (fs st) @ map snd (fdtab st))) 0"
    by (rule fold_max_ge)
  then show ?thesis by (simp add: temp_name_def)
qed

lemma temp_name_missing: "map_of (fs st) (temp_name E pre st) = None"
proof -
  have "temp_name E pre st \<notin> set (map fst (fs st))"
    using temp_name_longer [of "temp_name E pre st" st E pre] by auto
  then show ?thesis by (simp add: map_of_eq_None_iff)
qed

lemma temp_name_not_open: "map_of (fdtab st) f = Some q \<Longrightarrow> q \<noteq> temp_name E pre st"
proof -
  assume "map_of (fdtab st) f = Some q"
  then have "(f, q) \<in> set (fdtab st)" by (rule map_of_SomeD)
  then have "q \<in> set (map snd (fdtab st))" by force
  then show ?thesis using temp_name_longer [of q st E pre] by auto
qed

subsection \<open>Writing to a file\<close>

lemma map_of_append_file:
  "map_of (append_file p d F) q =
     (if q = p then (case map_of F p of Some (File x) \<Rightarrow> Some (File (x @ d)) | r \<Rightarrow> r)
      else map_of F q)"
  by (auto simp: append_file_def AList.update_conv' split: option.splits node.splits)

lemma append_file_twice:
  "append_file p d2 (append_file p d1 F) = append_file p (d1 @ d2) F"
  by (auto simp: append_file_def AList.update_conv' split: option.splits node.splits)

lemma append_file_Nil: "append_file p [] F = F"
  by (auto simp: append_file_def AList.update_triv split: option.splits node.splits)

lemma keys_append_file: "map fst (append_file p d F) = map fst F"
proof (cases "map_of F p")
  case None
  then show ?thesis by (simp add: append_file_def)
next
  case (Some n)
  then have "p \<in> set (map fst F)"
    by (metis map_of_eq_None_iff option.distinct(1) set_map)
  with Some show ?thesis
    by (cases n) (simp_all add: append_file_def AList.update_keys)
qed

subsection \<open>Actions on a stream\<close>

lemma run_actions_open:
  "map_of (fdtab st) (fileno s) = Some p \<Longrightarrow>
   run_actions s acts st =
     (Inr (),
      set_buffer s (pending acts (buffer s st))
        (st\<lparr>fs := append_file p (flushed acts (buffer s st)) (fs st),
            trace := trace st @ flush_events s acts\<rparr>))"
proof (induction acts arbitrary: st)
  case Nil
  then show ?case by (cases s) (simp_all add: append_file_Nil)
next
  case (Cons a as)
  show ?case
  proof (cases a)
    case (Write d)
    have o: "map_of (fdtab (stream_write s d st)) (fileno s) = Some p"
      using Cons.prems by (cases s) (simp_all add: stream_write_def)
    show ?thesis
      using Cons.IH [OF o] Write
      by (cases s) (simp_all add: stream_write_def)
  next
    case Flush
    let ?st1 = "emit (EvFlush s) (set_buffer s [] (st\<lparr>fs := append_file p (buffer s st) (fs st)\<rparr>))"
    have o: "map_of (fdtab ?st1) (fileno s) = Some p"
      using Cons.prems by (cases s) (simp_all add: emit_def)
    show ?thesis
      using Cons.IH [OF o] Flush Cons.prems
      by (cases s) (simp_all add: stream_flush_def emit_def append_file_twice)
  qed
qed

subsection \<open>The suppression scope\<close>

lemma fileno_neq_fresh:
  "map_of tab (fileno s) = Some q \<Longrightarrow> fresh_fd tab \<noteq> fileno s"
  using fresh_fd_closed [of tab] by auto

lemma fdtab_set_buffer [simp]: "fdtab (set_buffer s b st) = fdtab st"
  by (cases s) simp_all

lemma fs_set_buffer [simp]: "fs (set_buffer s b st) = fs st"
  by (cases s) simp_all

lemma trace_set_buffer [simp]: "trace (set_buffer s b st) = trace st"
  by (cases s) simp_all

lemma buffer_set_buffer [simp]:
  "buffer s' (set_buffer s b st) = (if s' = s then b else buffer s' st)"
  by (cases s; cases s') simp_all

lemma fdtab_emit [simp]: "fdtab (emit e st) = fdtab st"
  by (simp add: emit_def)

lemma trace_emit [simp]: "trace (emit e st) = trace st @ [e]"
  by (simp add: emit_def)

lemma buffer_emit [simp]: "buffer s (emit e st) = buffer s st"
  by (cases s) (simp_all add: emit_def)

lemma buffer_fs_update [simp]: "buffer s (st\<lparr>fs := F\<rparr>) = buffer s st"
  by (cases s) simp_all

lemma buffer_fdtab_update [simp]: "buffer s (st\<lparr>fdtab := T\<rparr>) = buffer s st"
  by (cases s) simp_all

lemma fdtab_silence_flushed:
  "fdtab (silence_flushed s orig st) = AList.update (fresh_fd (fdtab st)) orig (fdtab st)"
  by (simp add: silence_flushed_def Let_def)

lemma fdtab_silence_enter:
  "fdtab (silence_enter E s orig st) =
     AList.update (fileno s) (silence_path E s orig st)
       (AList.update (silence_fd s orig st) (silence_path E s orig st)
          (AList.update (fresh_fd (fdtab st)) orig (fdtab st)))"
  by (simp add: silence_enter_def Let_def fdtab_silence_flushed)

lemma silence_fd_neq:
  assumes "map_of (fdtab st) (fileno s) = Some orig"
  shows "silence_fd s orig st \<noteq> fileno s"
    and "silence_fd s orig st \<noteq> fresh_fd (fdtab st)"
    and "fresh_fd (fdtab st) \<noteq> fileno s"
    and "map_of (fdtab st) (silence_fd s orig st) = None"
proof -
  let ?c = "fresh_fd (fdtab st)"
  let ?tab = "AList.update ?c orig (fdtab st)"
  have n: "map_of ?tab (silence_fd s orig st) = None"
    unfolding silence_fd_def fdtab_silence_flushed by (rule fresh_fd_closed)
  show c: "?c \<noteq> fileno s"
    using assms by (rule fileno_neq_fresh)
  show tc: "silence_fd s orig st \<noteq> ?c"
    using n by (auto simp: AList.update_conv')
  show "silence_fd s orig st \<noteq> fileno s"
    using n assms c by (auto simp: AList.update_conv')
  show "map_of (fdtab st) (silence_fd s orig st) = None"
    using n tc by (simp add: AList.update_conv')
qed

lemma dist_silence_run:
  assumes op: "map_of (fdtab st) (fileno s) = Some orig"
    and body: "body (silence_path E s orig st) (silence_enter E s orig st) = (r, st5)"
    and fds: "fdtab st5 = fdtab (silence_enter E s orig st)"
  shows "dist_silence E s body st =
           (r, silence_exit s orig (fresh_fd (fdtab st)) (silence_fd s orig st)
                 (silence_path E s orig st) st5)"
proof -
  let ?c = "fresh_fd (fdtab st)"
  let ?t = "silence_fd s orig st"
  let ?p = "silence_path E s orig st"
  note neq = silence_fd_neq [OF op]
  have d: "os_dup (fileno s) st =
             (Inr ?c, emit (EvDup (fileno s) ?c) (st\<lparr>fdtab := AList.update ?c orig (fdtab st)\<rparr>))"
    using op by (simp add: os_dup_def Let_def)
  have f: "stream_flush s (emit (EvDup (fileno s) ?c) (st\<lparr>fdtab := AList.update ?c orig (fdtab st)\<rparr>))
           = (Inr (), silence_flushed s orig st)"
    using op neq by (simp add: stream_flush_def silence_flushed_def Let_def AList.update_conv')
  have m: "mkstemp E (silence_flushed s orig st) =
             (Inr (?t, ?p),
              emit (EvMkstemp ?t ?p)
                ((silence_flushed s orig st)
                   \<lparr>fs := AList.update ?p (File []) (fs (silence_flushed s orig st)),
                    fdtab := AList.update ?t ?p (fdtab (silence_flushed s orig st))\<rparr>))"
    by (simp add: mkstemp_def Let_def silence_path_def silence_fd_def)
  have d2: "os_dup2 ?t (fileno s)
              (emit (EvMkstemp ?t ?p)
                ((silence_flushed s orig st)
                   \<lparr>fs := AList.update ?p (File []) (fs (silence_flushed s orig st)),
                    fdtab := AList.update ?t ?p (fdtab (silence_flushed s orig st))\<rparr>))
            = (Inr (), silence_enter E s orig st)"
    by (simp add: os_dup2_def silence_enter_def Let_def AList.update_conv')
  let ?st6 = "emit (EvFlush s) (set_buffer s [] (st5\<lparr>fs := append_file ?p (buffer s st5) (fs st5)\<rparr>))"
  have f2: "stream_flush s st5 = (Inr (), ?st6)"
    by (simp add: stream_flush_def fds fdtab_silence_enter AList.update_conv')
  let ?st7 = "emit (EvDup2 ?c (fileno s)) (?st6\<lparr>fdtab := AList.update (fileno s) orig (fdtab ?st6)\<rparr>)"
  have d3: "os_dup2 ?c (fileno s) ?st6 = (Inr (), ?st7)"
    using neq by (simp add: os_dup2_def fds fdtab_silence_enter AList.update_conv')
  let ?st8 = "emit (EvFsync ?t) ?st7"
  have fsy: "os_fsync ?t ?st7 = (Inr (), ?st8)"
    using neq by (simp add: os_fsync_def fds fdtab_silence_enter AList.update_conv')
  let ?st9 = "emit (EvClose ?t) (?st8\<lparr>fdtab := AList.delete ?t (fdtab ?st8)\<rparr>)"
  have c1: "os_close ?t ?st8 = (Inr (), ?st9)"
    using neq by (simp add: os_close_def fds fdtab_silence_enter AList.update_conv')
  let ?st10 = "emit (EvClose ?c) (?st9\<lparr>fdtab := AList.delete ?c (fdtab ?st9)\<rparr>)"
  have c2: "os_close ?c ?st9 = (Inr (), ?st10)"
    using neq by (simp add: os_close_def fds fdtab_silence_enter AList.update_conv' AList.delete_conv')
  have ex: "silence_exit s orig ?c ?t ?p st5 = ?st10"
    by (simp add: silence_exit_def Let_def)
  show ?thesis
    unfolding ex
    by (simp only: dist_silence_def Let_def d bind_Inr_eq f m prod.case d2 try_finally_def
          body f2 d3 fsy c1 c2 sum.case)
qed

lemma flushed_pending: "flushed acts b @ pending acts b = b @ written acts"
  by (induction acts b rule: flushed.induct) simp_all

lemma region_open:
  "map_of (fdtab st) (fileno s) = Some p \<Longrightarrow>
   region s acts outcome q st =
     (outcome,
      set_buffer s (pending acts (buffer s st))
        (st\<lparr>fs := append_file p (flushed acts (buffer s st)) (fs st),
            trace := trace st @ flush_events s acts\<rparr>))"
  by (simp add: region_def run_actions_open)

lemma fs_silence_flushed:
  "fs (silence_flushed s orig st) = append_file orig (buffer s st) (fs st)"
  by (simp add: silence_flushed_def Let_def)

lemma trace_silence_flushed:
  "trace (silence_flushed s orig st) = trace st @ [EvDup (fileno s) (fresh_fd (fdtab st)), EvFlush s]"
  by (simp add: silence_flushed_def Let_def)

lemma buffer_silence_flushed:
  "buffer s' (silence_flushed s orig st) = (if s' = s then [] else buffer s' st)"
  by (simp add: silence_flushed_def Let_def)

lemma fs_silence_enter:
  "fs (silence_enter E s orig st) =
     AList.update (silence_path E s orig st) (File []) (append_file orig (buffer s st) (fs st))"
  by (simp add: silence_enter_def Let_def fs_silence_flushed emit_def)

lemma trace_silence_enter:
  "trace (silence_enter E s orig st) =
     trace st @ [EvDup (fileno s) (fresh_fd (fdtab st)), EvFlush s,
                 EvMkstemp (silence_fd s orig st) (silence_path E s orig st),
                 EvDup2 (silence_fd s orig st) (fileno s)]"
  by (simp add: silence_enter_def Let_def trace_silence_flushed)

lemma buffer_silence_enter:
  "buffer s' (silence_enter E s orig st) = (if s' = s then [] else buffer s' st)"
  by (simp add: silence_enter_def Let_def buffer_silence_flushed)

lemma open_silence_enter:
  "map_of (fdtab (silence_enter E s orig st)) (fileno s) = Some (silence_path E s orig st)"
  by (simp add: fdtab_silence_enter AList.update_conv')

lemma fdtab_silence_exit:
  "fdtab (silence_exit s orig c t p st5) =
     AList.delete c (AList.delete t (AList.update (fileno s) orig (fdtab st5)))"
  by (simp add: silence_exit_def Let_def)

lemma fs_silence_exit:
  "fs (silence_exit s orig c t p st5) = append_file p (buffer s st5) (fs st5)"
  by (simp add: silence_exit_def Let_def)

lemma trace_silence_exit:
  "trace (silence_exit s orig c t p st5) =
     trace st5 @ [EvFlush s, EvDup2 c (fileno s), EvFsync t, EvClose t, EvClose c]"
  by (simp add: silence_exit_def Let_def)

lemma buffer_silence_exit:
  "buffer s' (silence_exit s orig c t p st5) = (if s' = s then [] else buffer s' st5)"
  by (simp add: silence_exit_def Let_def)

lemma silence_path_missing:
  "map_of (fs st) (silence_path E s orig st) = None"
proof -
  have "map_of (fs (silence_flushed s orig st)) (silence_path E s orig st) = None"
    unfolding silence_path_def by (rule temp_name_missing)
  then have "silence_path E s orig st \<notin> set (map fst (fs (silence_flushed s orig st)))"
    by (simp add: map_of_eq_None_iff)
  then have "silence_path E s orig st \<notin> set (map fst (fs st))"
    by (simp add: fs_silence_flushed keys_append_file)
  then show ?thesis by (simp add: map_of_eq_None_iff)
qed

lemma silence_path_not_orig:
  "map_of (fdtab st) (fileno s) = Some orig \<Longrightarrow> orig \<noteq> silence_path E s orig st"
proof -
  assume op: "map_of (fdtab st) (fileno s) = Some orig"
  have "map_of (fdtab (silence_flushed s orig st)) (fileno s) = Some orig"
    using op silence_fd_neq(3) [OF op]
    by (simp add: fdtab_silence_flushed AList.update_conv')
  then show ?thesis
    unfolding silence_path_def by (rule temp_name_not_open)
qed

lemma fdtab_restored:
  assumes op: "map_of (fdtab st) (fileno s) = Some orig"
    and fds: "fdtab st5 = fdtab (silence_enter E s orig st)"
  shows "map_of (fdtab (silence_exit s orig (fresh_fd (fdtab st)) (silence_fd s orig st) p st5))
         = map_of (fdtab st)"
proof
  fix f
  note neq = silence_fd_neq [OF op]
  have c: "map_of (fdtab st) (fresh_fd (fdtab st)) = None"
    by (rule fresh_fd_closed)
  show "map_of (fdtab (silence_exit s orig (fresh_fd (fdtab st)) (silence_fd s orig st) p st5)) f
        = map_of (fdtab st) f"
    using op neq c
    by (simp add: fdtab_silence_exit fds fdtab_silence_enter AList.update_conv' AList.delete_conv')
qed



subsection \<open>Compiling\<close>

lemma dist_import_path_file:
  "isfile st path \<Longrightarrow> extension_loader E = Some l \<Longrightarrow>
   dist_import_path E path None st =
     (l MODULE_NAME path, emit (EvLoadModule MODULE_NAME path) st)"
  by (auto simp: dist_import_path_def extension_loader_def Let_def split: option.splits)

lemma map_of_fold_update:
  "map_of (fold (\<lambda>(p, n). AList.update p n) bs F) q =
     (case map_of (fold (\<lambda>(p, n). AList.update p n) bs []) q of
        Some n \<Rightarrow> Some n
      | None \<Rightarrow> map_of F q)"
proof (induction bs arbitrary: F)
  case Nil
  then show ?case by simp
next
  case (Cons b bs)
  obtain p n where b: "b = (p, n)" by (cases b)
  show ?case
    using Cons.IH [of "AList.update p n F"] Cons.IH [of "AList.update p n []"]
    by (simp add: b AList.update_conv' split: option.splits)
qed

lemma map_of_built:
  "map_of (fold (\<lambda>(p, n). AList.update p n) (b_files b) F) q =
     (case built_files b q of Some n \<Rightarrow> Some n | None \<Rightarrow> map_of F q)"
  unfolding built_files_def by (rule map_of_fold_update)

lemma ffi_compile_run_open:
  assumes "map_of (fdtab st) (fileno Stdout) = Some p"
  shows "ffi_compile_run E ffi d st = (b_result (ffi_compile E ffi d), built_world E ffi d p st)"
proof -
  have o: "map_of (fdtab (emit (EvCompile d) st)) (fileno Stdout) = Some p"
    using assms by simp
  show ?thesis
    unfolding ffi_compile_run_def built_world_def Let_def run_actions_open [OF o]
    by (simp add: emit_def)
qed

lemma dist_compile_tmpdir:
  "d = compile_tmpdir E tmpdir st \<Longrightarrow>
   dist_compile E ffi tmpdir st =
     bind (dist_silence E Stdout (compile_body E ffi d) (compile_start E tmpdir st))
       (\<lambda>(out_path, pyd_path) st.
          bind (os_remove out_path st) (\<lambda>u st.
          bind (dist_import_path E pyd_path None st) (\<lambda>module st.
            (Inr module, rmtree E d st))))"
  by (cases tmpdir)
     (simp_all add: dist_compile_def compile_tmpdir_def compile_start_def mkdtemp_def Let_def)

lemma fdtab_built_world [simp]: "fdtab (built_world E ffi d p st) = fdtab st"
  by (simp add: built_world_def Let_def)

lemma trace_built_world:
  "trace (built_world E ffi d p st) =
     trace st @ [EvCompile d] @ flush_events Stdout (b_output (ffi_compile E ffi d))"
  by (simp add: built_world_def Let_def)

lemma buffer_built_world:
  "buffer s (built_world E ffi d p st) =
     (if s = Stdout then pending (b_output (ffi_compile E ffi d)) (buffer Stdout st)
      else buffer s st)"
  by (cases s) (simp_all add: built_world_def Let_def)

lemma fs_built_world:
  "map_of (fs (built_world E ffi d p st)) q =
     (case built_files (ffi_compile E ffi d) q of
        Some n \<Rightarrow> Some n
      | None \<Rightarrow> map_of (append_file p (flushed (b_output (ffi_compile E ffi d)) (buffer Stdout st))
                          (fs st)) q)"
  by (simp add: built_world_def Let_def map_of_built split: option.splits)

text \<open>The capture file while the build runs and when it has ended.\<close>

lemma capture_after_build:
  assumes "built_files (ffi_compile E ffi d) (silence_path E Stdout orig st0) = None"
  shows "map_of (fs (built_world E ffi d (silence_path E Stdout orig st0)
                      (silence_enter E Stdout orig st0)))
           (silence_path E Stdout orig st0)
         = Some (File (flushed (b_output (ffi_compile E ffi d)) []))"
  using assms
  by (simp add: fs_built_world map_of_append_file fs_silence_enter buffer_silence_enter
        AList.update_conv')

lemma compile_body_success:
  assumes "map_of (fdtab st) (fileno Stdout) = Some p"
    and "b_result (ffi_compile E ffi d) = Inr pyd"
  shows "compile_body E ffi d p st = (Inr (p, pyd), built_world E ffi d p st)"
  by (simp add: compile_body_def ffi_compile_run_open [OF assms(1)] assms(2))

lemma compile_body_failure:
  assumes "map_of (fdtab st) (fileno Stdout) = Some p"
    and "b_result (ffi_compile E ffi d) = Inl e"
    and "is_Exception e"
    and "map_of (fs (built_world E ffi d p st)) p = Some (File text)"
  shows "compile_body E ffi d p st =
           (Inl e, print_to Stderr (universal_newlines text)
                     (emit (EvOpen p) (built_world E ffi d p st)))"
  using assms(3,4)
  by (simp add: compile_body_def ffi_compile_run_open [OF assms(1)] assms(2) open_read_def)

lemma compile_body_interrupt:
  assumes "map_of (fdtab st) (fileno Stdout) = Some p"
    and "b_result (ffi_compile E ffi d) = Inl e"
    and "\<not> is_Exception e"
  shows "compile_body E ffi d p st = (Inl e, built_world E ffi d p st)"
  using assms(3)
  by (simp add: compile_body_def ffi_compile_run_open [OF assms(1)] assms(2))

lemma fdtab_print_to [simp]: "fdtab (print_to s text st) = fdtab st"
  by (simp add: print_to_def stream_write_def)

lemma fs_print_to [simp]: "fs (print_to s text st) = fs st"
  by (simp add: print_to_def stream_write_def)

lemma trace_print_to [simp]: "trace (print_to s text st) = trace st"
  by (simp add: print_to_def stream_write_def)

lemma buffer_print_to:
  "buffer s' (print_to s text st) =
     (if s' = s then buffer s st @ text @ [CHR 0x0A] else buffer s' st)"
  by (simp add: print_to_def stream_write_def)

lemma fdtab_rmtree [simp]: "fdtab (rmtree E d st) = fdtab st"
  by (simp add: rmtree_def)

lemma trace_rmtree [simp]: "trace (rmtree E d st) = trace st @ [EvRmtree d]"
  by (simp add: rmtree_def)

lemma buffer_rmtree [simp]: "buffer s (rmtree E d st) = buffer s st"
  by (simp add: rmtree_def)

lemma map_of_filter_None: "map_of F p = None \<Longrightarrow> map_of (filter P F) p = None"
  by (auto simp: map_of_eq_None_iff)

lemma fs_rmtree_None: "map_of (fs st) p = None \<Longrightarrow> map_of (fs (rmtree E d st)) p = None"
  by (simp add: rmtree_def map_of_filter_None)

lemma capture_silenced_build:
  assumes "built_files (ffi_compile E ffi d) (silence_path E Stdout orig st0) = None"
  shows "map_of (fs (silenced_build E ffi d orig st0)) (silence_path E Stdout orig st0)
         = Some (File (written (b_output (ffi_compile E ffi d))))"
  using capture_after_build [OF assms] flushed_pending [of "b_output (ffi_compile E ffi d)" "[]"]
  by (simp add: silenced_build_def fs_silence_exit map_of_append_file buffer_built_world
        buffer_silence_enter)

lemma pyd_silenced_build:
  assumes "built_files (ffi_compile E ffi d) (silence_path E Stdout orig st0) = None"
    and "built_files (ffi_compile E ffi d) pyd = Some (File x)"
  shows "map_of (fs (silenced_build E ffi d orig st0)) pyd = Some (File x)"
proof -
  have "pyd \<noteq> silence_path E Stdout orig st0" using assms by auto
  then show ?thesis
    using assms(2)
    by (simp add: silenced_build_def fs_silence_exit map_of_append_file fs_built_world)
qed

lemma silence_compile_success:
  assumes op: "map_of (fdtab st0) (fileno Stdout) = Some orig"
    and res: "b_result (ffi_compile E ffi d) = Inr pyd"
  shows "dist_silence E Stdout (compile_body E ffi d) st0 =
           (Inr (silence_path E Stdout orig st0, pyd), silenced_build E ffi d orig st0)"
proof -
  have body: "compile_body E ffi d (silence_path E Stdout orig st0) (silence_enter E Stdout orig st0)
              = (Inr (silence_path E Stdout orig st0, pyd),
                 built_world E ffi d (silence_path E Stdout orig st0) (silence_enter E Stdout orig st0))"
    by (rule compile_body_success [OF open_silence_enter res])
  have fds: "fdtab (built_world E ffi d (silence_path E Stdout orig st0) (silence_enter E Stdout orig st0))
             = fdtab (silence_enter E Stdout orig st0)"
    by simp
  show ?thesis
    unfolding silenced_build_def
    by (rule dist_silence_run [where body = "compile_body E ffi d", OF op body fds])
qed

lemma silence_compile_failure:
  assumes op: "map_of (fdtab st0) (fileno Stdout) = Some orig"
    and untouched: "built_files (ffi_compile E ffi d) (silence_path E Stdout orig st0) = None"
    and res: "b_result (ffi_compile E ffi d) = Inl e"
    and exc: "is_Exception e"
  shows "dist_silence E Stdout (compile_body E ffi d) st0 =
           (Inl e, replayed_build E ffi d orig st0)"
proof -
  let ?p = "silence_path E Stdout orig st0"
  let ?st4 = "silence_enter E Stdout orig st0"
  let ?st5 = "print_to Stderr (universal_newlines (flushed (b_output (ffi_compile E ffi d)) []))
                (emit (EvOpen ?p) (built_world E ffi d ?p ?st4))"
  have body: "compile_body E ffi d ?p ?st4 = (Inl e, ?st5)"
    by (rule compile_body_failure
          [OF open_silence_enter res exc capture_after_build [OF untouched]])
  have fds: "fdtab ?st5 = fdtab ?st4"
    by simp
  show ?thesis
    unfolding replayed_build_def
    by (rule dist_silence_run [where body = "compile_body E ffi d", OF op body fds])
qed

lemma rest_success:
  assumes op: "map_of (fdtab st0) (fileno Stdout) = Some orig"
    and untouched: "built_files (ffi_compile E ffi d) (silence_path E Stdout orig st0) = None"
    and res: "b_result (ffi_compile E ffi d) = Inr pyd"
    and pydf: "built_files (ffi_compile E ffi d) pyd = Some (File x)"
    and ld: "extension_loader E = Some l"
  shows "bind (dist_silence E Stdout (compile_body E ffi d) st0)
           (\<lambda>(out_path, pyd_path) st.
              bind (os_remove out_path st) (\<lambda>u st.
              bind (dist_import_path E pyd_path None st) (\<lambda>module st.
                (Inr module, rmtree E d st))))
         = bind (l MODULE_NAME pyd,
                 emit (EvLoadModule MODULE_NAME pyd)
                   (emit (EvRemove (silence_path E Stdout orig st0))
                      ((silenced_build E ffi d orig st0)
                         \<lparr>fs := AList.delete (silence_path E Stdout orig st0)
                                  (fs (silenced_build E ffi d orig st0))\<rparr>)))
             (\<lambda>module st. (Inr module, rmtree E d st))"
proof -
  let ?p = "silence_path E Stdout orig st0"
  let ?st10 = "silenced_build E ffi d orig st0"
  let ?st11 = "emit (EvRemove ?p) (?st10\<lparr>fs := AList.delete ?p (fs ?st10)\<rparr>)"
  have rm: "os_remove ?p ?st10 = (Inr (), ?st11)"
    by (simp add: os_remove_def capture_silenced_build [OF untouched])
  have "pyd \<noteq> ?p" using untouched pydf by auto
  then have "isfile ?st11 pyd"
    by (simp add: isfile_def AList.delete_conv' pyd_silenced_build [OF untouched pydf])
  then have im: "dist_import_path E pyd None ?st11 =
                   (l MODULE_NAME pyd, emit (EvLoadModule MODULE_NAME pyd) ?st11)"
    using ld by (rule dist_import_path_file)
  show ?thesis
    by (simp only: silence_compile_success [OF op res] bind_Inr_eq prod.case rm im)
qed

lemma fdtab_compile_start [simp]: "fdtab (compile_start E tmpdir st) = fdtab st"
  by (cases tmpdir) (simp_all add: compile_start_def Let_def)

lemma buffer_compile_start [simp]: "buffer s (compile_start E tmpdir st) = buffer s st"
  by (cases tmpdir) (simp_all add: compile_start_def Let_def)

lemma stderr_buf_buffer: "stderr_buf st = buffer Stderr st"
  by simp

lemma fdtab_silenced_build:
  "map_of (fdtab st0) (fileno Stdout) = Some orig \<Longrightarrow>
   map_of (fdtab (silenced_build E ffi d orig st0)) = map_of (fdtab st0)"
  unfolding silenced_build_def by (rule fdtab_restored) simp_all

lemma fdtab_replayed_build:
  "map_of (fdtab st0) (fileno Stdout) = Some orig \<Longrightarrow>
   map_of (fdtab (replayed_build E ffi d orig st0)) = map_of (fdtab st0)"
  unfolding replayed_build_def by (rule fdtab_restored) simp_all

lemma trace_silenced_build:
  "trace (silenced_build E ffi d orig st0) =
     trace st0
     @ [EvDup (fileno Stdout) (fresh_fd (fdtab st0)), EvFlush Stdout,
        EvMkstemp (silence_fd Stdout orig st0) (silence_path E Stdout orig st0),
        EvDup2 (silence_fd Stdout orig st0) (fileno Stdout), EvCompile d]
     @ flush_events Stdout (b_output (ffi_compile E ffi d))
     @ [EvFlush Stdout, EvDup2 (fresh_fd (fdtab st0)) (fileno Stdout),
        EvFsync (silence_fd Stdout orig st0), EvClose (silence_fd Stdout orig st0),
        EvClose (fresh_fd (fdtab st0))]"
  by (simp add: silenced_build_def trace_silence_exit trace_built_world trace_silence_enter)

lemma trace_replayed_build:
  "trace (replayed_build E ffi d orig st0) =
     trace st0
     @ [EvDup (fileno Stdout) (fresh_fd (fdtab st0)), EvFlush Stdout,
        EvMkstemp (silence_fd Stdout orig st0) (silence_path E Stdout orig st0),
        EvDup2 (silence_fd Stdout orig st0) (fileno Stdout), EvCompile d]
     @ flush_events Stdout (b_output (ffi_compile E ffi d))
     @ [EvOpen (silence_path E Stdout orig st0)]
     @ [EvFlush Stdout, EvDup2 (fresh_fd (fdtab st0)) (fileno Stdout),
        EvFsync (silence_fd Stdout orig st0), EvClose (silence_fd Stdout orig st0),
        EvClose (fresh_fd (fdtab st0))]"
  by (simp add: replayed_build_def trace_silence_exit trace_built_world trace_silence_enter)

lemma stderr_silenced_build:
  "buffer Stderr (silenced_build E ffi d orig st0) = buffer Stderr st0"
  by (simp add: silenced_build_def buffer_silence_exit buffer_built_world buffer_silence_enter)

lemma stderr_replayed_build:
  "buffer Stderr (replayed_build E ffi d orig st0) =
     buffer Stderr st0 @ universal_newlines (flushed (b_output (ffi_compile E ffi d)) [])
     @ [CHR 0x0A]"
  by (simp add: replayed_build_def buffer_silence_exit buffer_print_to buffer_built_world
        buffer_silence_enter)

lemma fdtab_compiled_world:
  "map_of (fdtab st0) (fileno Stdout) = Some orig \<Longrightarrow>
   map_of (fdtab (compiled_world E ffi d orig st0 pyd)) = map_of (fdtab st0)"
  by (simp add: compiled_world_def fdtab_silenced_build)

lemma trace_compiled_world:
  "trace (compiled_world E ffi d orig st0 pyd) =
     trace (silenced_build E ffi d orig st0)
     @ [EvRemove (silence_path E Stdout orig st0), EvLoadModule MODULE_NAME pyd, EvRmtree d]"
  by (simp add: compiled_world_def)

lemma stderr_buf_silenced_build:
  "stderr_buf (silenced_build E ffi d orig st0) = stderr_buf st0"
  using stderr_silenced_build [of E ffi d orig st0] by simp

lemma stderr_buf_replayed_build:
  "stderr_buf (replayed_build E ffi d orig st0) =
     stderr_buf st0 @ universal_newlines (flushed (b_output (ffi_compile E ffi d)) [])
     @ [CHR 0x0A]"
  using stderr_replayed_build [of E ffi d orig st0] by simp

lemma stderr_buf_compiled_world:
  "stderr_buf (compiled_world E ffi d orig st0 pyd) = stderr_buf st0"
  by (simp add: compiled_world_def rmtree_def emit_def stderr_buf_silenced_build)

lemma stderr_buf_compile_start [simp]: "stderr_buf (compile_start E tmpdir st) = stderr_buf st"
  by (cases tmpdir) (simp_all add: compile_start_def Let_def emit_def)

lemma capture_compiled_world:
  "map_of (fs (compiled_world E ffi d orig st0 pyd)) (silence_path E Stdout orig st0) = None"
  unfolding compiled_world_def
  by (rule fs_rmtree_None) (simp add: AList.delete_conv')

lemma dist_compile_success:
  assumes op: "map_of (fdtab st) (fileno Stdout) = Some orig"
    and d: "d = compile_tmpdir E tmpdir st"
    and st0: "st0 = compile_start E tmpdir st"
    and untouched: "built_files (ffi_compile E ffi d) (silence_path E Stdout orig st0) = None"
    and res: "b_result (ffi_compile E ffi d) = Inr pyd"
    and pydf: "built_files (ffi_compile E ffi d) pyd = Some (File x)"
    and ld: "extension_loader E = Some l"
    and lm: "l MODULE_NAME pyd = Inr m"
  shows "dist_compile E ffi tmpdir st = (Inr m, compiled_world E ffi d orig st0 pyd)"
proof -
  have op0: "map_of (fdtab st0) (fileno Stdout) = Some orig"
    using op by (simp add: st0)
  show ?thesis
    unfolding dist_compile_tmpdir [OF d] st0 [symmetric]
      rest_success [OF op0 untouched res pydf ld] lm bind_Inr_eq compiled_world_def
    by (rule refl)
qed

lemma dist_compile_failure:
  assumes op: "map_of (fdtab st) (fileno Stdout) = Some orig"
    and d: "d = compile_tmpdir E tmpdir st"
    and st0: "st0 = compile_start E tmpdir st"
    and untouched: "built_files (ffi_compile E ffi d) (silence_path E Stdout orig st0) = None"
    and res: "b_result (ffi_compile E ffi d) = Inl e"
    and exc: "is_Exception e"
  shows "dist_compile E ffi tmpdir st = (Inl e, replayed_build E ffi d orig st0)"
proof -
  have op0: "map_of (fdtab st0) (fileno Stdout) = Some orig"
    using op by (simp add: st0)
  show ?thesis
    unfolding dist_compile_tmpdir [OF d] st0 [symmetric]
      silence_compile_failure [OF op0 untouched res exc] bind_Inl_eq
    by (rule refl)
qed

lemma flushed_all: "pending acts [] = [] \<Longrightarrow> flushed acts [] = written acts"
  using flushed_pending [of acts "[]"] by simp

lemma capture_replayed_build:
  assumes "built_files (ffi_compile E ffi d) (silence_path E Stdout orig st0) = None"
  shows "map_of (fs (replayed_build E ffi d orig st0)) (silence_path E Stdout orig st0)
         = Some (File (written (b_output (ffi_compile E ffi d))))"
  using capture_after_build [OF assms] flushed_pending [of "b_output (ffi_compile E ffi d)" "[]"]
  by (simp add: replayed_build_def fs_silence_exit map_of_append_file buffer_print_to
        buffer_built_world buffer_silence_enter)

lemma map_of_filter_keep: "(\<And>n. P (q, n)) \<Longrightarrow> map_of (filter P F) q = map_of F q"
  by (induction F) auto

lemma map_of_filter_drop: "(\<And>n. \<not> P (q, n)) \<Longrightarrow> map_of (filter P F) q = None"
  by (auto simp: map_of_eq_None_iff)

lemma rmtree_removes:
  assumes "under (os_sep E) d q"
    and "\<forall>q'. locked E q' \<longrightarrow> \<not> under (os_sep E) q q'"
  shows "map_of (fs (rmtree E d st)) q = None"
proof -
  have "\<not> pinned E (fs st) q"
    using assms(2) by (auto simp: pinned_def list_ex_iff)
  then show ?thesis
    using assms(1) by (simp add: rmtree_def map_of_filter_drop)
qed

lemma rmtree_keeps:
  "\<not> under (os_sep E) d q \<Longrightarrow> map_of (fs (rmtree E d st)) q = map_of (fs st) q"
  by (simp add: rmtree_def map_of_filter_keep)

lemma removed_compiled_world:
  "under (os_sep E) d q \<Longrightarrow> \<forall>q'. locked E q' \<longrightarrow> \<not> under (os_sep E) q q' \<Longrightarrow>
   map_of (fs (compiled_world E ffi d orig st0 pyd)) q = None"
  unfolding compiled_world_def by (rule rmtree_removes)

lemma kept_compiled_world:
  assumes "\<not> under (os_sep E) d q"
    and "q \<noteq> silence_path E Stdout orig st0"
    and "q \<noteq> orig"
    and "built_files (ffi_compile E ffi d) q = None"
  shows "map_of (fs (compiled_world E ffi d orig st0 pyd)) q = map_of (fs st0) q"
  using assms
  by (simp add: compiled_world_def rmtree_keeps AList.delete_conv' silenced_build_def
        fs_silence_exit map_of_append_file fs_built_world fs_silence_enter AList.update_conv')

lemma silence_path_E0:
  "os_sep E = ''/'' \<Longrightarrow> tempdir E = ''/tmp'' \<Longrightarrow>
   \<exists>r. silence_path E s orig st = ''/tmp/tmp'' @ r"
  by (simp add: silence_path_def temp_name_def)




subsection \<open>The fallback\<close>

lemma file_text_trace_fun [simp]: "file_text (st\<lparr>trace := t\<rparr>) = file_text st"
  by (rule ext) simp

lemma file_text_emit_fun [simp]: "file_text (emit e st) = file_text st"
  by (rule ext) simp

lemma read_text_trace_fun [simp]: "read_text (st\<lparr>trace := t\<rparr>) = read_text st"
  by (rule ext) simp

lemma read_text_emit_fun [simp]: "read_text (emit e st) = read_text st"
  by (rule ext) simp

lemma dist_read_files:
  "\<forall>p\<in>set paths. isfile st p \<Longrightarrow>
   dist_read E paths st =
     (Inr (concat (map (read_text st) paths)), st\<lparr>trace := trace st @ map EvOpen paths\<rparr>)"
  by (simp add: dist_read_def read_loop_files)

lemma dist_ffi_files:
  assumes "\<forall>p\<in>set (HEADER_FILES E @ SOURCE_FILES E). isfile st p"
    and "cdef_error E (concat (map (read_text st) (HEADER_FILES E))) = None"
  shows "dist_ffi E st = (Inr (assembled E st), after_assembly E st)"
proof -
  have h: "\<forall>p\<in>set (HEADER_FILES E). isfile st p"
    using assms(1) by simp
  have s: "\<forall>p\<in>set (SOURCE_FILES E). isfile (st\<lparr>trace := trace st @ map EvOpen (HEADER_FILES E)\<rparr>) p"
    using assms(1) by simp
  show ?thesis
    unfolding dist_ffi_def dist_read_files [OF h] bind_Inr_eq dist_read_files [OF s]
    using assms(2)
    by (simp add: Let_def assembled_def after_assembly_def)
qed

lemma cache_emit [simp]: "cache (emit e st) = cache st"
  by (simp add: emit_def)

lemma cache_set_buffer [simp]: "cache (set_buffer s b st) = cache st"
  by (cases s) simp_all

lemma cache_compile_start [simp]: "cache (compile_start E tmpdir st) = cache st"
  by (cases tmpdir) (simp_all add: compile_start_def Let_def)

lemma cache_after_assembly [simp]: "cache (after_assembly E st) = cache st"
  by (simp add: after_assembly_def)

lemma cache_compiled_world [simp]:
  "cache (compiled_world E ffi d orig st0 pyd) = cache st0"
  by (simp add: compiled_world_def rmtree_def silenced_build_def silence_exit_def
        built_world_def silence_enter_def silence_flushed_def Let_def)

lemma fdtab_after_assembly [simp]: "fdtab (after_assembly E st) = fdtab st"
  by (simp add: after_assembly_def)

lemma trace_after_assembly:
  "trace (after_assembly E st) = trace st @ map EvOpen (HEADER_FILES E @ SOURCE_FILES E)"
  by (simp add: after_assembly_def)

lemma trace_compile_start_None:
  "trace (compile_start E None st) = trace st @ [EvMkdtemp (compile_tmpdir E None st)]"
  by (simp add: compile_start_def compile_tmpdir_def Let_def)

lemma assembled_emit [simp]: "assembled E (emit e st) = assembled E st"
  by (simp add: assembled_def)

lemma no_compile_flush [simp]: "filter is_compile (flush_events s acts) = []"
  by (induction s acts rule: flush_events.induct) simp_all

lemma no_load_flush [simp]: "filter is_load (flush_events s acts) = []"
  by (induction s acts rule: flush_events.induct) simp_all

lemma no_compile_open [simp]: "filter is_compile (map EvOpen ps) = []"
  by (induction ps) simp_all

lemma no_load_open [simp]: "filter is_load (map EvOpen ps) = []"
  by (induction ps) simp_all

lemma load_fallback_success:
  assumes cold: "cache st = None"
    and imp: "import_module E ''_pywincffi'' = Inl e"
    and ie: "is_ImportError e"
    and files: "\<forall>p\<in>set (HEADER_FILES E @ SOURCE_FILES E). isfile st p"
    and cdef: "cdef_error E (concat (map (read_text st) (HEADER_FILES E))) = None"
    and op: "map_of (fdtab st) (fileno Stdout) = Some orig"
    and st1: "st1 = after_assembly E (emit (EvImport ''_pywincffi'') st)"
    and d: "d = compile_tmpdir E None st1"
    and st0: "st0 = compile_start E None st1"
    and untouched: "built_files (ffi_compile E (assembled E st) d)
                      (silence_path E Stdout orig st0) = None"
    and res: "b_result (ffi_compile E (assembled E st) d) = Inr pyd"
    and pydf: "built_files (ffi_compile E (assembled E st) d) pyd = Some (File x)"
    and ld: "extension_loader E = Some l"
    and lm: "l MODULE_NAME pyd = Inr m"
  shows "load E st =
           (Inr \<lparr>m_module = m, m_mode = ''compiled'', m_ffi = mh_ffi m, m_lib = mh_lib m\<rparr>,
            (compiled_world E (assembled E st) d orig st0 pyd)
              \<lparr>cache := Some \<lparr>m_module = m, m_mode = ''compiled'',
                              m_ffi = mh_ffi m, m_lib = mh_lib m\<rparr>\<rparr>)"
proof -
  let ?sti = "emit (EvImport ''_pywincffi'') st"
  have f: "dist_ffi E ?sti = (Inr (assembled E st), st1)"
    using dist_ffi_files [of E ?sti] files cdef by (simp add: st1)
  have op1: "map_of (fdtab st1) (fileno Stdout) = Some orig"
    using op by (simp add: st1)
  have c: "dist_compile E (assembled E st) None st1 =
             (Inr m, compiled_world E (assembled E st) d orig st0 pyd)"
    by (rule dist_compile_success [OF op1 d st0 untouched res pydf ld lm])
  have cc: "cache (compiled_world E (assembled E st) d orig st0 pyd) = None"
    using cold by (simp add: st0 st1)
  show ?thesis
    unfolding load_import_raises [OF cold imp]
    using ie cc by (simp add: f c Module_init_def)
qed

lemma open_flush [simp]: "filter is_open (flush_events s acts) = []"
  by (induction s acts rule: flush_events.induct) simp_all

lemma open_open [simp]: "filter is_open (map EvOpen ps) = map EvOpen ps"
  by (induction ps) simp_all

text \<open>
  C2. A cold call of \<^verbatim>\<open>load\<close> (the cache is empty). When the import of
  \<^verbatim>\<open>_pywincffi\<close> succeeds, \<^verbatim>\<open>load\<close> returns the \<^verbatim>\<open>Module\<close> of that module in mode
  "prebuilt" and stores it in the cache; the import is the only effect, so nothing is
  assembled, compiled or loaded. When the import raises an \<^verbatim>\<open>ImportError\<close> and the
  fallback goes through (every fragment is a regular file, \<^verbatim>\<open>cdef\<close> accepts the
  headers, \<^verbatim>\<open>sys.stdout\<close> is open, the build leaves the capture file alone and returns
  a path it has left as a regular file, the loader returns the module), \<^verbatim>\<open>load\<close>
  returns the \<^verbatim>\<open>Module\<close> of the loaded module in mode "compiled" and stores it in the
  cache; the trace is the import, each fragment opened once in the listed order, the
  headers first, then the steps of \<^verbatim>\<open>_compile\<close>; it holds one more build and one more
  module load than before.
\<close>

theorem load_cold_call:
  assumes "cache st = None"
  shows "(\<forall>h. import_module E ''_pywincffi'' = Inr h \<longrightarrow>
            load E st =
              (Inr \<lparr>m_module = h, m_mode = ''prebuilt'', m_ffi = mh_ffi h, m_lib = mh_lib h\<rparr>,
               (emit (EvImport ''_pywincffi'') st)
                 \<lparr>cache := Some \<lparr>m_module = h, m_mode = ''prebuilt'',
                                 m_ffi = mh_ffi h, m_lib = mh_lib h\<rparr>\<rparr>))
       \<and> (\<forall>e orig pyd x l m.
            (let ffi = assembled E st;
                 st1 = after_assembly E (emit (EvImport ''_pywincffi'') st);
                 d = compile_tmpdir E None st1; st0 = compile_start E None st1;
                 b = ffi_compile E ffi d;
                 c = fresh_fd (fdtab st); t = silence_fd Stdout orig st0;
                 p = silence_path E Stdout orig st0;
                 M = \<lparr>m_module = m, m_mode = ''compiled'', m_ffi = mh_ffi m, m_lib = mh_lib m\<rparr>;
                 st' = snd (load E st)
             in import_module E ''_pywincffi'' = Inl e \<and> is_ImportError e
                \<and> (\<forall>q\<in>set (HEADER_FILES E @ SOURCE_FILES E). isfile st q)
                \<and> cdef_error E (ffi_cdefs ffi) = None
                \<and> map_of (fdtab st) (fileno Stdout) = Some orig
                \<and> built_files b p = None \<and> b_result b = Inr pyd
                \<and> built_files b pyd = Some (File x)
                \<and> extension_loader E = Some l \<and> l MODULE_NAME pyd = Inr m
               \<longrightarrow> fst (load E st) = Inr M \<and> cache st' = Some M
                 \<and> trace st' =
                     trace st @ [EvImport ''_pywincffi'']
                     @ map EvOpen (HEADER_FILES E @ SOURCE_FILES E)
                     @ [EvMkdtemp d]
                     @ [EvDup (fileno Stdout) c, EvFlush Stdout, EvMkstemp t p,
                        EvDup2 t (fileno Stdout), EvCompile d]
                     @ flush_events Stdout (b_output b)
                     @ [EvFlush Stdout, EvDup2 c (fileno Stdout), EvFsync t, EvClose t, EvClose c]
                     @ [EvRemove p, EvLoadModule MODULE_NAME pyd, EvRmtree d]
                 \<and> filter is_open (trace st') =
                     filter is_open (trace st) @ map EvOpen (HEADER_FILES E @ SOURCE_FILES E)
                 \<and> length (filter is_compile (trace st')) = Suc (length (filter is_compile (trace st)))
                 \<and> length (filter is_load (trace st')) = Suc (length (filter is_load (trace st)))))"
proof (intro conjI allI impI)
  fix h assume "import_module E ''_pywincffi'' = Inr h"
  with assms show "load E st =
              (Inr \<lparr>m_module = h, m_mode = ''prebuilt'', m_ffi = mh_ffi h, m_lib = mh_lib h\<rparr>,
               (emit (EvImport ''_pywincffi'') st)
                 \<lparr>cache := Some \<lparr>m_module = h, m_mode = ''prebuilt'',
                                 m_ffi = mh_ffi h, m_lib = mh_lib h\<rparr>\<rparr>)"
    by (rule load_prebuilt)
next
  fix e orig pyd x l m
  let ?ffi = "assembled E st"
  let ?st1 = "after_assembly E (emit (EvImport ''_pywincffi'') st)"
  let ?d = "compile_tmpdir E None ?st1"
  let ?st0 = "compile_start E None ?st1"
  let ?b = "ffi_compile E ?ffi ?d"
  let ?p = "silence_path E Stdout orig ?st0"
  let ?M = "\<lparr>m_module = m, m_mode = ''compiled'', m_ffi = mh_ffi m, m_lib = mh_lib m\<rparr>"
  let ?W = "compiled_world E ?ffi ?d orig ?st0 pyd"
  show "let ffi = assembled E st;
            st1 = after_assembly E (emit (EvImport ''_pywincffi'') st);
            d = compile_tmpdir E None st1; st0 = compile_start E None st1;
            b = ffi_compile E ffi d;
            c = fresh_fd (fdtab st); t = silence_fd Stdout orig st0;
            p = silence_path E Stdout orig st0;
            M = \<lparr>m_module = m, m_mode = ''compiled'', m_ffi = mh_ffi m, m_lib = mh_lib m\<rparr>;
            st' = snd (load E st)
        in import_module E ''_pywincffi'' = Inl e \<and> is_ImportError e
           \<and> (\<forall>q\<in>set (HEADER_FILES E @ SOURCE_FILES E). isfile st q)
           \<and> cdef_error E (ffi_cdefs ffi) = None
           \<and> map_of (fdtab st) (fileno Stdout) = Some orig
           \<and> built_files b p = None \<and> b_result b = Inr pyd
           \<and> built_files b pyd = Some (File x)
           \<and> extension_loader E = Some l \<and> l MODULE_NAME pyd = Inr m
          \<longrightarrow> fst (load E st) = Inr M \<and> cache st' = Some M
            \<and> trace st' =
                trace st @ [EvImport ''_pywincffi'']
                @ map EvOpen (HEADER_FILES E @ SOURCE_FILES E)
                @ [EvMkdtemp d]
                @ [EvDup (fileno Stdout) c, EvFlush Stdout, EvMkstemp t p,
                   EvDup2 t (fileno Stdout), EvCompile d]
                @ flush_events Stdout (b_output b)
                @ [EvFlush Stdout, EvDup2 c (fileno Stdout), EvFsync t, EvClose t, EvClose c]
                @ [EvRemove p, EvLoadModule MODULE_NAME pyd, EvRmtree d]
            \<and> filter is_open (trace st') =
                filter is_open (trace st) @ map EvOpen (HEADER_FILES E @ SOURCE_FILES E)
            \<and> length (filter is_compile (trace st')) = Suc (length (filter is_compile (trace st)))
            \<and> length (filter is_load (trace st')) = Suc (length (filter is_load (trace st)))"
    unfolding Let_def
  proof (intro impI)
    assume H: "import_module E ''_pywincffi'' = Inl e \<and> is_ImportError e
           \<and> (\<forall>q\<in>set (HEADER_FILES E @ SOURCE_FILES E). isfile st q)
           \<and> cdef_error E (ffi_cdefs ?ffi) = None
           \<and> map_of (fdtab st) (fileno Stdout) = Some orig
           \<and> built_files ?b ?p = None \<and> b_result ?b = Inr pyd
           \<and> built_files ?b pyd = Some (File x)
           \<and> extension_loader E = Some l \<and> l MODULE_NAME pyd = Inr m"
    have cd: "cdef_error E (concat (map (read_text st) (HEADER_FILES E))) = None"
      using H by (simp add: assembled_def)
    have L: "load E st = (Inr ?M, ?W\<lparr>cache := Some ?M\<rparr>)"
      using H cd
      by (intro load_fallback_success [OF assms _ _ _ cd _ refl refl refl]) blast+
    have T: "trace ?W =
                trace st @ [EvImport ''_pywincffi'']
                @ map EvOpen (HEADER_FILES E @ SOURCE_FILES E)
                @ [EvMkdtemp ?d]
                @ [EvDup (fileno Stdout) (fresh_fd (fdtab st)), EvFlush Stdout,
                   EvMkstemp (silence_fd Stdout orig ?st0) ?p,
                   EvDup2 (silence_fd Stdout orig ?st0) (fileno Stdout), EvCompile ?d]
                @ flush_events Stdout (b_output ?b)
                @ [EvFlush Stdout, EvDup2 (fresh_fd (fdtab st)) (fileno Stdout),
                   EvFsync (silence_fd Stdout orig ?st0), EvClose (silence_fd Stdout orig ?st0),
                   EvClose (fresh_fd (fdtab st))]
                @ [EvRemove ?p, EvLoadModule MODULE_NAME pyd, EvRmtree ?d]"
      by (simp add: trace_compiled_world trace_silenced_build trace_compile_start_None
            trace_after_assembly)
    have T': "trace (snd (load E st)) = trace ?W"
      by (simp add: L)
    show "fst (load E st) = Inr ?M \<and> cache (snd (load E st)) = Some ?M
            \<and> trace (snd (load E st)) =
                trace st @ [EvImport ''_pywincffi'']
                @ map EvOpen (HEADER_FILES E @ SOURCE_FILES E)
                @ [EvMkdtemp ?d]
                @ [EvDup (fileno Stdout) (fresh_fd (fdtab st)), EvFlush Stdout,
                   EvMkstemp (silence_fd Stdout orig ?st0) ?p,
                   EvDup2 (silence_fd Stdout orig ?st0) (fileno Stdout), EvCompile ?d]
                @ flush_events Stdout (b_output ?b)
                @ [EvFlush Stdout, EvDup2 (fresh_fd (fdtab st)) (fileno Stdout),
                   EvFsync (silence_fd Stdout orig ?st0), EvClose (silence_fd Stdout orig ?st0),
                   EvClose (fresh_fd (fdtab st))]
                @ [EvRemove ?p, EvLoadModule MODULE_NAME pyd, EvRmtree ?d]
            \<and> filter is_open (trace (snd (load E st))) =
                filter is_open (trace st) @ map EvOpen (HEADER_FILES E @ SOURCE_FILES E)
            \<and> length (filter is_compile (trace (snd (load E st))))
                = Suc (length (filter is_compile (trace st)))
            \<and> length (filter is_load (trace (snd (load E st))))
                = Suc (length (filter is_load (trace st)))"
      unfolding T' T by (simp add: L)
  qed
qed

lemma compile_tmpdir_form:
  "os_sep E = ''/'' \<Longrightarrow> tempdir E = ''/tmp'' \<Longrightarrow>
   \<exists>r. compile_tmpdir E None st = ''/tmp/pywincffi-'' @ r"
  by (simp add: compile_tmpdir_def temp_name_def)

theorem load_cold_call_witness:
  "load E_prebuilt w2 = (Inr c0, (emit (EvImport ''_pywincffi'') w2)\<lparr>cache := Some c0\<rparr>)
   \<and> fst (load E0 w2) = Inr c1
   \<and> cache (snd (load E0 w2)) = Some c1
   \<and> length (filter is_compile (trace (snd (load E0 w2)))) = 1
   \<and> length (filter is_load (trace (snd (load E0 w2)))) = 1"
proof -
  have cold: "cache w2 = None"
    by (simp add: w2_def)
  have t0: "trace w2 = []"
    by (simp add: w2_def)
  note T = load_cold_call [OF cold]
  have pre: "import_module E_prebuilt ''_pywincffi'' = Inr h0"
    by (simp add: E_prebuilt_def)
  have A: "load E_prebuilt w2 = (Inr c0, (emit (EvImport ''_pywincffi'') w2)\<lparr>cache := Some c0\<rparr>)"
    unfolding c0_def by (rule T [THEN conjunct1, THEN spec, THEN mp, OF pre])
  let ?st1 = "after_assembly E0 (emit (EvImport ''_pywincffi'') w2)"
  let ?d = "compile_tmpdir E0 None ?st1"
  let ?st0 = "compile_start E0 None ?st1"
  let ?pyd = "?d @ ''/_pywincffi.pyd''"
  have sep: "os_sep E0 = ''/''" "tempdir E0 = ''/tmp''"
    by (simp_all add: E0_def)
  obtain r where r: "silence_path E0 Stdout ''/out.log'' ?st0 = ''/tmp/tmp'' @ r"
    using silence_path_E0 [OF sep] by blast
  obtain r' where r': "?d = ''/tmp/pywincffi-'' @ r'"
    using compile_tmpdir_form [OF sep] by blast
  have b0: "ffi_compile E0 f d =
              \<lparr>b_output = [Write ''cc main.c'', Flush, Write ''done''],
               b_files = [(d @ ''/_pywincffi.pyd'', File ''ELF'')],
               b_result = Inr (d @ ''/_pywincffi.pyd'')\<rparr>" for f d
    by (simp add: E0_def)
  have files: "HEADER_FILES E0 @ SOURCE_FILES E0 =
       [''/pkg/pywincffi/core/cdefs/headers/constants.h'',
        ''/pkg/pywincffi/core/cdefs/headers/structs.h'',
        ''/pkg/pywincffi/core/cdefs/headers/functions.h'',
        ''/pkg/pywincffi/core/cdefs/sources/main.c'']"
    by (simp add: HEADER_FILES_def SOURCE_FILES_def resource_filename_def E0_def)
  have h1: "import_module E0 ''_pywincffi'' = Inl (ModuleNotFoundError ''_pywincffi'')"
    by (simp add: E0_def)
  have h2: "is_ImportError (ModuleNotFoundError ''_pywincffi'')"
    by simp
  have h3: "\<forall>q\<in>set (HEADER_FILES E0 @ SOURCE_FILES E0). isfile w2 q"
    unfolding files by (simp add: isfile_def w2_def)
  have h4: "cdef_error E0 (ffi_cdefs (assembled E0 w2)) = None"
    by (simp add: E0_def)
  have h5: "map_of (fdtab w2) (fileno Stdout) = Some ''/out.log''"
    by (simp add: w2_def)
  have h6: "built_files (ffi_compile E0 (assembled E0 w2) ?d)
              (silence_path E0 Stdout ''/out.log'' ?st0) = None"
    unfolding b0 r by (simp add: built_files_def r')
  have h7: "b_result (ffi_compile E0 (assembled E0 w2) ?d) = Inr ?pyd"
    unfolding b0 by simp
  have h8: "built_files (ffi_compile E0 (assembled E0 w2) ?d) ?pyd = Some (File ''ELF'')"
    unfolding b0 by (simp add: built_files_def)
  have h9: "extension_loader E0 = Some (\<lambda>n p. Inr h0)"
    by (simp add: extension_loader_def E0_def)
  have h10: "(\<lambda>n p. Inr h0) MODULE_NAME ?pyd = Inr h0"
    by simp
  note B = T [THEN conjunct2, unfolded Let_def,
              THEN spec [where x = "ModuleNotFoundError ''_pywincffi''"],
              THEN spec [where x = "''/out.log''"],
              THEN spec [where x = "?pyd"],
              THEN spec [where x = "''ELF''"],
              THEN spec [where x = "\<lambda>n p. Inr h0"],
              THEN spec [where x = h0], THEN mp]
  have hyp: "import_module E0 ''_pywincffi'' = Inl (ModuleNotFoundError ''_pywincffi'')
           \<and> is_ImportError (ModuleNotFoundError ''_pywincffi'')
           \<and> (\<forall>q\<in>set (HEADER_FILES E0 @ SOURCE_FILES E0). isfile w2 q)
           \<and> cdef_error E0 (ffi_cdefs (assembled E0 w2)) = None
           \<and> map_of (fdtab w2) (fileno Stdout) = Some ''/out.log''
           \<and> built_files (ffi_compile E0 (assembled E0 w2) ?d)
                (silence_path E0 Stdout ''/out.log'' ?st0) = None
           \<and> b_result (ffi_compile E0 (assembled E0 w2) ?d) = Inr ?pyd
           \<and> built_files (ffi_compile E0 (assembled E0 w2) ?d) ?pyd = Some (File ''ELF'')
           \<and> extension_loader E0 = Some (\<lambda>n p. Inr h0)
           \<and> (\<lambda>n p. Inr h0) MODULE_NAME ?pyd = Inr h0"
    using h1 h2 h3 h4 h5 h6 h7 h8 h9 h10 by (intro conjI)
  note C = B [OF hyp]
  have 1: "fst (load E0 w2) = Inr c1"
    unfolding c1_def by (rule C [THEN conjunct1])
  have 2: "cache (snd (load E0 w2)) = Some c1"
    unfolding c1_def by (rule C [THEN conjunct2, THEN conjunct1])
  have 3: "length (filter is_compile (trace (snd (load E0 w2)))) = 1"
    using C [THEN conjunct2, THEN conjunct2, THEN conjunct2, THEN conjunct2, THEN conjunct1]
    by (simp add: t0)
  have 4: "length (filter is_load (trace (snd (load E0 w2)))) = 1"
    using C [THEN conjunct2, THEN conjunct2, THEN conjunct2, THEN conjunct2, THEN conjunct2]
    by (simp add: t0)
  show ?thesis
    using A 1 2 3 4 by (intro conjI)
qed

end
